theory Spec2Isabelle
  imports Complex_Main "HOL-Library.Sublist" "HOL-Library.AList"
begin

section \<open>JavaScript values\<close>

text \<open>
  The filter engine of \<^verbatim>\<open>src/services/filter.ts\<close> receives its gateways and providers as
  \<^verbatim>\<open>any[]\<close>, so they are modelled as dynamically typed values.

  A number is an IEEE 754 double: \<open>NaN\<close>, an infinity, or a finite double. \<open>Fin r\<close> stands for
  the double nearest to the rational \<open>r\<close> (\<open>double_of\<close> below), so that \<open>Fin (23 / 20)\<close> is the
  number that JavaScript reads from the literal \<^verbatim>\<open>1.15\<close>; every operation first takes its
  operands to that double and rounds its exact result to a double again. The two zeros are
  one number here: the program never divides by a zero it has computed, and prints both
  as \<^verbatim>\<open>0\<close>.

  A string is a list of UTF-16 code units, of which the model has the first 256 (the
  characters of Latin-1). An object is the list of its own properties in insertion order,
  read through \<open>map_of\<close>; the objects of a parsed JSON text have no duplicate keys. A value
  \<open>JBuiltin k\<close> is the member \<open>k\<close> of \<^verbatim>\<open>Object.prototype\<close>, which every object inherits:
  a built-in function, and for \<^verbatim>\<open>__proto__\<close> the prototype object itself. No input holds
  such a value; the program meets one when it indexes a record by a name like
  \<^verbatim>\<open>constructor\<close>.
\<close>

datatype jsnum = NaN | PInf | NInf | Fin rat

datatype jsval =
    JUndefined
  | JNull
  | JBool bool
  | JNum jsnum
  | JStr string
  | JArr "jsval list"
  | JObj "(string \<times> jsval) list"
  | JBuiltin string

subsection \<open>Doubles\<close>

text \<open>The number of digits of a positive integer in base \<open>b\<close>.\<close>

function base_length :: "int \<Rightarrow> int \<Rightarrow> int" where
  "base_length b n = (if n \<le> 0 \<or> b \<le> 1 then 0 else 1 + base_length b (n div b))"
  by pat_completeness auto
termination
  by (relation "measure (\<lambda>(b, n). nat n)") (auto intro: int_div_less_self)

declare base_length.simps [simp del]

definition pow_int :: "rat \<Rightarrow> int \<Rightarrow> rat" where
  "pow_int b e = (if 0 \<le> e then b ^ nat e else 1 / b ^ nat (- e))"

text \<open>
  For a positive \<open>x\<close>, the exponent \<open>e\<close> with \<open>b\<^sup>e \<le> x < b\<^sup>e\<^sup>+\<^sup>1\<close>: with \<open>x = p / q\<close>, it is
  the difference of the lengths of \<open>p\<close> and \<open>q\<close>, or one less.
\<close>

definition floor_log :: "int \<Rightarrow> rat \<Rightarrow> int" where
  "floor_log b x =
     (let (p, q) = quotient_of x;
          e = base_length b p - base_length b q
      in if pow_int (of_int b) e \<le> x then e else e - 1)"

definition round_half_even :: "rat \<Rightarrow> int" where
  "round_half_even q =
     (let f = \<lfloor>q\<rfloor>; d = q - of_int f
      in if d < 1 / 2 then f else if 1 / 2 < d then f + 1 else if even f then f else f + 1)"

text \<open>
  The double nearest to a rational, a tie going to the even significand: 53 bits of
  significand, exponents from -1022 (below it the subnormal numbers, with the spacing
  \<open>2\<^sup>-\<^sup>1\<^sup>0\<^sup>7\<^sup>4\<close>) to 1023 (above it the infinities).
\<close>

definition double_of :: "rat \<Rightarrow> jsnum" where
  "double_of x =
     (if x = 0 then Fin 0
      else
        let a = \<bar>x\<bar>;
            e = floor_log 2 a
        in if 1024 \<le> e then (if 0 < x then PInf else NInf)
           else
             let ulp = pow_int 2 (max e (- 1022) - 52);
                 n = round_half_even (a / ulp)
             in if e = 1023 \<and> n = 2 ^ 53 then (if 0 < x then PInf else NInf)
                else Fin (if 0 < x then of_int n * ulp else - (of_int n * ulp)))"

fun dnum :: "jsnum \<Rightarrow> jsnum" where
  "dnum (Fin r) = double_of r"
| "dnum n = n"

subsection \<open>Arithmetic and comparison of numbers\<close>

text \<open>The operations on doubles; \<open>num_mul\<close>, \<open>num_div\<close> and \<open>num_add\<close> are \<^verbatim>\<open>*\<close>, \<^verbatim>\<open>/\<close> and \<^verbatim>\<open>+\<close>.\<close>

fun double_mul :: "jsnum \<Rightarrow> jsnum \<Rightarrow> jsnum" where
  "double_mul NaN _ = NaN"
| "double_mul _ NaN = NaN"
| "double_mul (Fin a) (Fin b) = double_of (a * b)"
| "double_mul (Fin a) PInf = (if a = 0 then NaN else if 0 < a then PInf else NInf)"
| "double_mul (Fin a) NInf = (if a = 0 then NaN else if 0 < a then NInf else PInf)"
| "double_mul PInf (Fin b) = (if b = 0 then NaN else if 0 < b then PInf else NInf)"
| "double_mul NInf (Fin b) = (if b = 0 then NaN else if 0 < b then NInf else PInf)"
| "double_mul PInf PInf = PInf"
| "double_mul NInf NInf = PInf"
| "double_mul PInf NInf = NInf"
| "double_mul NInf PInf = NInf"

fun double_div :: "jsnum \<Rightarrow> jsnum \<Rightarrow> jsnum" where
  "double_div NaN _ = NaN"
| "double_div _ NaN = NaN"
| "double_div (Fin a) (Fin b) =
     (if b = 0 then (if a = 0 then NaN else if 0 < a then PInf else NInf)
      else double_of (a / b))"
| "double_div (Fin a) PInf = Fin 0"
| "double_div (Fin a) NInf = Fin 0"
| "double_div PInf (Fin b) = (if 0 \<le> b then PInf else NInf)"
| "double_div NInf (Fin b) = (if 0 \<le> b then NInf else PInf)"
| "double_div PInf PInf = NaN"
| "double_div NInf NInf = NaN"
| "double_div PInf NInf = NaN"
| "double_div NInf PInf = NaN"

fun double_add :: "jsnum \<Rightarrow> jsnum \<Rightarrow> jsnum" where
  "double_add NaN _ = NaN"
| "double_add _ NaN = NaN"
| "double_add (Fin a) (Fin b) = double_of (a + b)"
| "double_add (Fin a) PInf = PInf"
| "double_add (Fin a) NInf = NInf"
| "double_add PInf (Fin b) = PInf"
| "double_add NInf (Fin b) = NInf"
| "double_add PInf PInf = PInf"
| "double_add NInf NInf = NInf"
| "double_add PInf NInf = NaN"
| "double_add NInf PInf = NaN"

definition num_mul :: "jsnum \<Rightarrow> jsnum \<Rightarrow> jsnum" where
  "num_mul a b = double_mul (dnum a) (dnum b)"

definition num_div :: "jsnum \<Rightarrow> jsnum \<Rightarrow> jsnum" where
  "num_div a b = double_div (dnum a) (dnum b)"

definition num_add :: "jsnum \<Rightarrow> jsnum \<Rightarrow> jsnum" where
  "num_add a b = double_add (dnum a) (dnum b)"

text \<open>\<^verbatim>\<open>a < b\<close> and \<^verbatim>\<open>a <= b\<close> on numbers: false as soon as one side is \<open>NaN\<close>.\<close>

fun double_lt :: "jsnum \<Rightarrow> jsnum \<Rightarrow> bool" where
  "double_lt NaN _ = False"
| "double_lt _ NaN = False"
| "double_lt (Fin a) (Fin b) = (a < b)"
| "double_lt (Fin a) PInf = True"
| "double_lt (Fin a) NInf = False"
| "double_lt PInf _ = False"
| "double_lt NInf (Fin b) = True"
| "double_lt NInf PInf = True"
| "double_lt NInf NInf = False"

definition num_lt :: "jsnum \<Rightarrow> jsnum \<Rightarrow> bool" where
  "num_lt a b = double_lt (dnum a) (dnum b)"

definition num_le :: "jsnum \<Rightarrow> jsnum \<Rightarrow> bool" where
  "num_le a b =
     (dnum a \<noteq> NaN \<and> dnum b \<noteq> NaN \<and> (dnum a = dnum b \<or> double_lt (dnum a) (dnum b)))"

text \<open>\<^verbatim>\<open>Math.round\<close> rounds to the nearest integer, a tie towards plus infinity.\<close>

definition math_round :: "jsnum \<Rightarrow> jsnum" where
  "math_round n = (case dnum n of Fin a \<Rightarrow> Fin (of_int \<lfloor>a + 1 / 2\<rfloor>) | m \<Rightarrow> m)"

definition math_max :: "jsnum \<Rightarrow> jsnum \<Rightarrow> jsnum" where
  "math_max a b =
     (if dnum a = NaN \<or> dnum b = NaN then NaN
      else if double_lt (dnum a) (dnum b) then dnum b else dnum a)"

subsection \<open>Truthiness, property access and the operators on values\<close>

fun truthy :: "jsval \<Rightarrow> bool" where
  "truthy JUndefined = False"
| "truthy JNull = False"
| "truthy (JBool b) = b"
| "truthy (JNum n) = (dnum n \<noteq> NaN \<and> dnum n \<noteq> Fin 0)"
| "truthy (JStr s) = (s \<noteq> [])"
| "truthy (JArr xs) = True"
| "truthy (JObj kvs) = True"
| "truthy (JBuiltin k) = True"

fun nullish :: "jsval \<Rightarrow> bool" where
  "nullish JUndefined = True"
| "nullish JNull = True"
| "nullish _ = False"

definition own_property :: "(string \<times> jsval) list \<Rightarrow> string \<Rightarrow> jsval" where
  "own_property kvs k = (case map_of kvs k of None \<Rightarrow> JUndefined | Some v \<Rightarrow> v)"

text \<open>
  The members of \<^verbatim>\<open>Object.prototype\<close>, which a read of an object finds when the object
  has no property of its own under the name.
\<close>

definition object_prototype_names :: "string list" where
  "object_prototype_names =
     [''constructor'', ''__defineGetter__'', ''__defineSetter__'', ''hasOwnProperty'',
      ''__lookupGetter__'', ''__lookupSetter__'', ''isPrototypeOf'', ''propertyIsEnumerable'',
      ''toString'', ''valueOf'', ''__proto__'', ''toLocaleString'']"

text \<open>
  \<^verbatim>\<open>v.k\<close> for the property names that the program writes out: a \<^verbatim>\<open>TypeError\<close> (here
  \<open>None\<close>) on \<^verbatim>\<open>null\<close> and \<^verbatim>\<open>undefined\<close>. None of these names is an index,
  \<^verbatim>\<open>length\<close> or a member of the prototype of objects, arrays, strings, numbers or booleans,
  so an object has the property only as its own and a primitive or an array has none of
  them; a built-in function has its \<^verbatim>\<open>name\<close>, which for \<^verbatim>\<open>constructor\<close> is
  \<^verbatim>\<open>Object\<close>.
\<close>

definition builtin_name :: "string \<Rightarrow> string" where
  "builtin_name k = (if k = ''constructor'' then ''Object'' else k)"

fun optp :: "jsval \<Rightarrow> string \<Rightarrow> jsval" where
  "optp (JObj kvs) k = own_property kvs k"
| "optp (JBuiltin f) k =
     (if k = ''name'' \<and> f \<noteq> ''__proto__'' then JStr (builtin_name f) else JUndefined)"
| "optp _ k = JUndefined"

definition getp :: "jsval \<Rightarrow> string \<Rightarrow> jsval option" where
  "getp v k = (if nullish v then None else Some (optp v k))"

text \<open>\<^verbatim>\<open>v?.k\<close> is \<open>optp v k\<close>: \<^verbatim>\<open>undefined\<close> where \<^verbatim>\<open>v.k\<close> would throw. \<^verbatim>\<open>v?.k1?.k2?. ...\<close>\<close>

definition opt_chain :: "jsval \<Rightarrow> string list \<Rightarrow> jsval" where
  "opt_chain v ks = foldl optp v ks"

text \<open>\<^verbatim>\<open>a ?? b\<close> and \<^verbatim>\<open>a || b\<close>; the right operands of the program have no effect of their own.\<close>

definition nullish_coalesce :: "jsval \<Rightarrow> jsval \<Rightarrow> jsval" where
  "nullish_coalesce a b = (if nullish a then b else a)"

definition js_or :: "jsval \<Rightarrow> jsval \<Rightarrow> jsval" where
  "js_or a b = (if truthy a then a else b)"

subsection \<open>Strings and numbers\<close>

text \<open>
  \<^verbatim>\<open>String.prototype.trim\<close> and the white space of a numeric string: the white space and
  the line terminators of JavaScript among the first 256 code units, which are the tab, the
  line feed, the vertical tab, the form feed, the carriage return, the space and the
  no-break space U+00A0.
\<close>

definition is_space :: "char \<Rightarrow> bool" where
  "is_space c = ((of_char c :: nat) \<in> {9, 10, 11, 12, 13, 32, 160})"

definition trim :: "string \<Rightarrow> string" where
  "trim s = rev (dropWhile is_space (rev (dropWhile is_space s)))"

text \<open>\<^verbatim>\<open>s.split(c)\<close> for a one-character separator.\<close>

fun split_on :: "char \<Rightarrow> string \<Rightarrow> string list" where
  "split_on c [] = [[]]"
| "split_on c (x # xs) =
     (if x = c then [] # split_on c xs
      else (case split_on c xs of [] \<Rightarrow> [[x]] | y # ys \<Rightarrow> (x # y) # ys))"

definition is_digit :: "char \<Rightarrow> bool" where
  "is_digit c = (48 \<le> (of_char c :: nat) \<and> (of_char c :: nat) \<le> 57)"

text \<open>The value of a digit in a base up to 16, if the character is one.\<close>

definition digit_value :: "char \<Rightarrow> int option" where
  "digit_value c =
     (let n = (of_char c :: int) in
      if 48 \<le> n \<and> n \<le> 57 then Some (n - 48)
      else if 97 \<le> n \<and> n \<le> 102 then Some (n - 87)
      else if 65 \<le> n \<and> n \<le> 70 then Some (n - 55)
      else None)"

definition is_base_digit :: "int \<Rightarrow> char \<Rightarrow> bool" where
  "is_base_digit b c = (case digit_value c of None \<Rightarrow> False | Some d \<Rightarrow> d < b)"

definition digits_value :: "int \<Rightarrow> string \<Rightarrow> int" where
  "digits_value b s = foldl (\<lambda>a c. a * b + (case digit_value c of None \<Rightarrow> 0 | Some d \<Rightarrow> d)) 0 s"

text \<open>The exponent part of a decimal literal: empty, or \<^verbatim>\<open>e\<close> with an optional sign and digits.\<close>

definition parse_exponent :: "string \<Rightarrow> int option" where
  "parse_exponent s =
     (case s of
        [] \<Rightarrow> Some 0
      | c # t \<Rightarrow>
          if c = CHR ''e'' \<or> c = CHR ''E'' then
            (let neg = (case t of [] \<Rightarrow> False | d # _ \<Rightarrow> d = CHR ''-'');
                 ds = (case t of [] \<Rightarrow> []
                       | d # r \<Rightarrow> if d = CHR ''+'' \<or> d = CHR ''-'' then r else t)
             in if ds \<noteq> [] \<and> list_all is_digit ds
                then Some (if neg then - digits_value 10 ds else digits_value 10 ds)
                else None)
          else None)"

text \<open>
  An unsigned decimal literal: \<^verbatim>\<open>Infinity\<close>, or digits with an optional fraction and
  exponent. The result is the exact value of the literal, which \<open>Number_str\<close> rounds.
\<close>

definition parse_unsigned_decimal :: "string \<Rightarrow> jsnum" where
  "parse_unsigned_decimal s =
     (if s = ''Infinity'' then PInf
      else
        let ip = takeWhile is_digit s;
            r1 = dropWhile is_digit s;
            fp = (case r1 of [] \<Rightarrow> []
                  | c # t \<Rightarrow> if c = CHR ''.'' then takeWhile is_digit t else []);
            r2 = (case r1 of [] \<Rightarrow> []
                  | c # t \<Rightarrow> if c = CHR ''.'' then dropWhile is_digit t else r1)
        in if ip = [] \<and> fp = [] then NaN
           else (case parse_exponent r2 of
                   None \<Rightarrow> NaN
                 | Some e \<Rightarrow>
                     Fin (of_int (digits_value 10 (ip @ fp)) * pow_int 10 (e - int (length fp)))))"

definition parse_radix :: "int \<Rightarrow> string \<Rightarrow> jsnum" where
  "parse_radix b ds = (if ds \<noteq> [] \<and> list_all (is_base_digit b) ds then Fin (of_int (digits_value b ds)) else NaN)"

fun num_neg :: "jsnum \<Rightarrow> jsnum" where
  "num_neg NaN = NaN"
| "num_neg PInf = NInf"
| "num_neg NInf = PInf"
| "num_neg (Fin r) = Fin (- r)"

text \<open>
  \<^verbatim>\<open>Number(s)\<close> for a string: the white space around it is dropped, the empty string is 0,
  a binary, octal or hexadecimal literal has no sign, a decimal literal may have one, and
  anything else is \<open>NaN\<close>. The number is the double nearest to the value of the literal.
\<close>

definition Number_str :: "string \<Rightarrow> jsnum" where
  "Number_str s =
     dnum
       (let t = trim s in
        case t of
          [] \<Rightarrow> Fin 0
        | c # r \<Rightarrow>
            (case r of
               [] \<Rightarrow> parse_unsigned_decimal t
             | d # ds \<Rightarrow>
                 if c = CHR ''0'' \<and> (d = CHR ''x'' \<or> d = CHR ''X'') then parse_radix 16 ds
                 else if c = CHR ''0'' \<and> (d = CHR ''o'' \<or> d = CHR ''O'') then parse_radix 8 ds
                 else if c = CHR ''0'' \<and> (d = CHR ''b'' \<or> d = CHR ''B'') then parse_radix 2 ds
                 else if c = CHR ''+'' then parse_unsigned_decimal r
                 else if c = CHR ''-'' then num_neg (parse_unsigned_decimal r)
                 else parse_unsigned_decimal t))"

text \<open>The decimal digits of an integer that is not negative.\<close>

function digits_of :: "int \<Rightarrow> string" where
  "digits_of n =
     (if n < 10 then [char_of (48 + n)]
      else digits_of (n div 10) @ [char_of (48 + n mod 10)])"
  by pat_completeness auto
termination
  by (relation "measure nat") auto

declare digits_of.simps [simp del]

text \<open>\<^verbatim>\<open>n.toString()\<close> for a natural number below \<open>10\<^sup>2\<^sup>1\<close>.\<close>

definition nat_to_string :: "nat \<Rightarrow> string" where
  "nat_to_string n = digits_of (int n)"

text \<open>
  The digits that JavaScript prints for a positive double \<open>x\<close> whose decimal exponent is \<open>n\<close>
  (\<open>10\<^sup>n\<^sup>-\<^sup>1 \<le> x < 10\<^sup>n\<close>): the least number \<open>k\<close> of digits such that an integer \<open>s\<close> of \<open>k\<close>
  digits, scaled by \<open>10\<^sup>n\<^sup>-\<^sup>k\<close>, is read back as \<open>x\<close>, and of the two candidates next to \<open>x\<close>
  the nearer one. The candidate above may be \<open>10\<^sup>k\<close>, which is the digit 1 with the exponent
  \<open>n + 1\<close>. Seventeen digits are enough for every double.
\<close>

definition digit_candidate :: "rat \<Rightarrow> int \<Rightarrow> int \<Rightarrow> int option" where
  "digit_candidate x n k =
     (let scale = pow_int 10 (n - k);
          q = x / scale;
          lo = \<lfloor>q\<rfloor>;
          hi = lo + 1;
          lo_ok = (double_of (of_int lo * scale) = Fin x);
          hi_ok = (double_of (of_int hi * scale) = Fin x);
          nearer_hi = (of_int hi - q < q - of_int lo \<or> (of_int hi - q = q - of_int lo \<and> even hi))
      in if hi_ok \<and> (\<not> lo_ok \<or> nearer_hi) then Some hi
         else if lo_ok then Some lo
         else None)"

fun find_digits :: "nat \<Rightarrow> rat \<Rightarrow> int \<Rightarrow> int \<Rightarrow> int \<times> int" where
  "find_digits 0 x n k = (\<lfloor>x / pow_int 10 (n - k)\<rfloor>, k)"
| "find_digits (Suc fuel) x n k =
     (case digit_candidate x n k of
        Some s \<Rightarrow> (s, k)
      | None \<Rightarrow> find_digits fuel x n (k + 1))"

definition positive_to_string :: "rat \<Rightarrow> string" where
  "positive_to_string x =
     (let n0 = floor_log 10 x + 1;
          (s, k0) = find_digits 17 x n0 1;
          carry = (s = 10 ^ nat k0);
          ds = (if carry then ''1'' else digits_of s);
          n = (if carry then n0 + 1 else n0);
          k = int (length ds)
      in if k \<le> n \<and> n \<le> 21 then ds @ replicate (nat (n - k)) CHR ''0''
         else if 0 < n \<and> n \<le> 21 then take (nat n) ds @ ''.'' @ drop (nat n) ds
         else if - 6 < n \<and> n \<le> 0 then ''0.'' @ replicate (nat (- n)) CHR ''0'' @ ds
         else
           (let e = n - 1;
                es = (if e < 0 then ''-'' else ''+'') @ digits_of \<bar>e\<bar>
            in if k = 1 then ds @ ''e'' @ es
               else take 1 ds @ ''.'' @ drop 1 ds @ ''e'' @ es))"

text \<open>\<^verbatim>\<open>String(n)\<close> for a number.\<close>

definition num_to_string :: "jsnum \<Rightarrow> string" where
  "num_to_string n =
     (case dnum n of
        NaN \<Rightarrow> ''NaN''
      | PInf \<Rightarrow> ''Infinity''
      | NInf \<Rightarrow> ''-Infinity''
      | Fin r \<Rightarrow>
          if r = 0 then ''0''
          else (if r < 0 then ''-'' else []) @ positive_to_string \<bar>r\<bar>)"

definition join_comma :: "string list \<Rightarrow> string" where
  "join_comma ss = (case ss of [] \<Rightarrow> [] | s # r \<Rightarrow> foldl (\<lambda>a t. a @ '','' @ t) s r)"

text \<open>
  The conversion of a value to a string, which JavaScript applies to a value inside a
  template literal and to a value used as a property key. It calls the \<^verbatim>\<open>toString\<close> of
  an object. An object with a property of its own under that name, which in a parsed input
  is never a function, has no usable \<^verbatim>\<open>toString\<close>, and its \<^verbatim>\<open>valueOf\<close> (its own, again
  no function, or the inherited one, which returns the object) gives no primitive either:
  the conversion throws a \<^verbatim>\<open>TypeError\<close>. An array is converted by joining the conversions
  of its elements, \<^verbatim>\<open>null\<close> and \<^verbatim>\<open>undefined\<close> elements being empty. \<open>converts v\<close> tells
  that the conversion of \<open>v\<close> returns, and \<open>to_string v\<close> is the text it returns then. The
  conversion to a number goes through the same methods and throws for the same values.
\<close>

fun converts :: "jsval \<Rightarrow> bool" where
  "converts (JObj kvs) = (''toString'' \<notin> set (map fst kvs))"
| "converts (JArr xs) = list_all (\<lambda>x. converts x) xs"
| "converts _ = True"

text \<open>
  The text of a built-in function is the one that JavaScriptCore, the engine of the Bun
  runtime of this service, prints.
\<close>

fun to_string :: "jsval \<Rightarrow> string" where
  "to_string JUndefined = ''undefined''"
| "to_string JNull = ''null''"
| "to_string (JBool b) = (if b then ''true'' else ''false'')"
| "to_string (JNum n) = num_to_string n"
| "to_string (JStr s) = s"
| "to_string (JArr xs) = join_comma (map (\<lambda>x. if nullish x then [] else to_string x) xs)"
| "to_string (JObj kvs) = ''[object Object]''"
| "to_string (JBuiltin k) =
     (if k = ''__proto__'' then ''[object Object]''
      else ''function '' @ builtin_name k @ ''() {'' @ [CHR 0x0A] @ ''    [native code]'' @ [CHR 0x0A] @ ''}'')"

text \<open>\<^verbatim>\<open>Number(v)\<close>, the conversion of an operand of \<^verbatim>\<open>*\<close>, \<^verbatim>\<open><\<close> and \<^verbatim>\<open>Math.max\<close>.\<close>

definition to_number :: "jsval \<Rightarrow> jsnum option" where
  "to_number v =
     (if \<not> converts v then None
      else Some (case v of
        JUndefined \<Rightarrow> NaN
      | JNull \<Rightarrow> Fin 0
      | JBool b \<Rightarrow> Fin (if b then 1 else 0)
      | JNum n \<Rightarrow> n
      | JStr s \<Rightarrow> Number_str s
      | JArr xs \<Rightarrow> Number_str (to_string v)
      | JObj kvs \<Rightarrow> NaN
      | JBuiltin k \<Rightarrow> NaN))"

text \<open>
  A template literal with the interpolated values \<open>vs\<close> is evaluated, as the argument of
  \<^verbatim>\<open>console.debug\<close> for one: it returns when every value converts to a string, and
  throws otherwise. The text of a log message has no effect on the result.
\<close>

definition template_literal :: "jsval list \<Rightarrow> bool" where
  "template_literal vs = list_all converts vs"

section \<open>The filter service\<close>

subsection \<open>Input data and the provider lookup\<close>

text \<open>
  \<^verbatim>\<open>BatchDataResponse\<close> as declared in \<^verbatim>\<open>manager-api.ts\<close>: every field is optional
  (\<open>None\<close> is an absent field), \<^verbatim>\<open>gateways\<close> and \<^verbatim>\<open>providers\<close> are \<^verbatim>\<open>any[]\<close>,
  \<^verbatim>\<open>balances\<close> and \<^verbatim>\<open>errors\<close> are \<^verbatim>\<open>Record<string, number>\<close>. A record is modelled by
  its own properties, each a number as the type says.
\<close>

record BatchDataResponse =
  gateways :: "jsval list option"
  balances :: "(string \<rightharpoonup> jsnum) option"
  errors :: "(string \<rightharpoonup> jsnum) option"
  providers :: "jsval list option"

text \<open>
  \<^verbatim>\<open>record[k]\<close> for a key that is a string already. A record is a plain object: under a
  name for which it has no entry of its own, it has the member of \<^verbatim>\<open>Object.prototype\<close>
  of that name, if there is one.
\<close>

definition record_get :: "(string \<rightharpoonup> jsnum) \<Rightarrow> string \<Rightarrow> jsval" where
  "record_get r k =
     (case r k of
        Some n \<Rightarrow> JNum n
      | None \<Rightarrow> if k \<in> set object_prototype_names then JBuiltin k else JUndefined)"

text \<open>
  A \<^verbatim>\<open>Map\<close> keyed by values: primitive keys are equal by value (\<open>NaN\<close> equals itself),
  an object or array key is equal only to itself, and no two values that come from different
  places of a parsed input are the same object.
\<close>

type_synonym js_map = "(jsval \<times> jsval) list"

fun same_value_zero :: "jsval \<Rightarrow> jsval \<Rightarrow> bool" where
  "same_value_zero (JObj kvs) b = False"
| "same_value_zero (JArr xs) b = False"
| "same_value_zero (JNum m) b = (case b of JNum n \<Rightarrow> dnum m = dnum n | _ \<Rightarrow> False)"
| "same_value_zero a b = (a = b)"

fun map_set :: "js_map \<Rightarrow> jsval \<Rightarrow> jsval \<Rightarrow> js_map" where
  "map_set [] k v = [(k, v)]"
| "map_set ((k', v') # m) k v =
     (if same_value_zero k' k then (k', v) # m else (k', v') # map_set m k v)"

fun map_get :: "js_map \<Rightarrow> jsval \<Rightarrow> jsval" where
  "map_get [] k = JUndefined"
| "map_get ((k', v') # m) k = (if same_value_zero k' k then v' else map_get m k)"

text \<open>
  The loop \<^verbatim>\<open>for (const p of providers) providerMap.set(p.provider, p)\<close> of
  \<^verbatim>\<open>evaluateFilters\<close>.
\<close>

fun buildProviderMap :: "js_map \<Rightarrow> jsval list \<Rightarrow> js_map option" where
  "buildProviderMap m [] = Some m"
| "buildProviderMap m (p # ps) =
     (case getp p ''provider'' of
        None \<Rightarrow> None
      | Some k \<Rightarrow> buildProviderMap (map_set m k p) ps)"

text \<open>The wall clock read by \<^verbatim>\<open>new Date()\<close>, in local time.\<close>

record date =
  getHours :: nat
  getMinutes :: nat

subsection \<open>The four filters\<close>

definition ERROR_LIMIT :: jsnum where
  "ERROR_LIMIT = Fin 5"

text \<open>
  A filter that rejects a gateway first writes a message with \<^verbatim>\<open>console.debug\<close>. The
  message is a template literal, so the values it shows are converted to strings, and a
  value that does not convert makes the filter throw.
\<close>

definition console_debug :: "jsval list \<Rightarrow> 'a \<Rightarrow> 'a option" where
  "console_debug vs result = (if template_literal vs then Some result else None)"

text \<open>Filter 1: \<^verbatim>\<open>gateway.status === true\<close>.\<close>

definition checkStatus :: "jsval \<Rightarrow> bool option" where
  "checkStatus gateway =
     (case getp gateway ''status'' of
        None \<Rightarrow> None
      | Some status \<Rightarrow>
          (let isValid = (status = JBool True) in
           if \<not> isValid
           then console_debug [optp gateway ''gatewayId'', status] isValid
           else Some isValid))"

text \<open>
  \<^verbatim>\<open>const [h, m] = t.split(':').map(Number); h * 60 + m\<close>, which \<^verbatim>\<open>checkTimeRange\<close>
  computes for the opening and for the closing time. A missing second part is
  \<^verbatim>\<open>undefined\<close>, which the addition turns into \<open>NaN\<close>.
\<close>

definition minutes_of :: "string \<Rightarrow> jsnum" where
  "minutes_of t =
     (let parts = map Number_str (split_on CHR '':'' t);
          hour = (case parts of [] \<Rightarrow> NaN | h # r \<Rightarrow> h);
          minute = (case parts of [] \<Rightarrow> NaN | h # r \<Rightarrow> (case r of [] \<Rightarrow> NaN | m # r' \<Rightarrow> m))
      in num_add (num_mul hour (Fin 60)) minute)"

text \<open>
  Filter 2. The first property read, \<^verbatim>\<open>gateway.provider\<close>, throws on a gateway that is
  \<^verbatim>\<open>null\<close> or \<^verbatim>\<open>undefined\<close>; \<^verbatim>\<open>openingTime.split\<close> is a function only on a string.
\<close>

definition checkTimeRange :: "jsval \<Rightarrow> js_map \<Rightarrow> date \<Rightarrow> bool option" where
  "checkTimeRange gateway providerMap now =
     (case getp gateway ''provider'' of
        None \<Rightarrow> None
      | Some gp \<Rightarrow>
          (let provider = map_get providerMap gp;
               openingTime =
                 nullish_coalesce
                   (nullish_coalesce
                      (opt_chain gateway [''metaConfig'', ''operateTime'', ''deposit'', ''openingTime''])
                      (opt_chain gateway [''serviceTime'', ''deposit'', ''openingTime'']))
                   (opt_chain provider [''operateTime'', ''deposit'', ''openingTime'']);
               closingTime =
                 nullish_coalesce
                   (nullish_coalesce
                      (opt_chain gateway [''metaConfig'', ''operateTime'', ''deposit'', ''closingTime''])
                      (opt_chain gateway [''serviceTime'', ''deposit'', ''closingTime'']))
                   (opt_chain provider [''operateTime'', ''deposit'', ''closingTime''])
           in if \<not> truthy openingTime \<or> \<not> truthy closingTime then Some True
              else
                (let currentTime = Fin (of_nat (getHours now * 60 + getMinutes now)) in
                 case openingTime of
                   JStr ot \<Rightarrow>
                     (case closingTime of
                        JStr ct \<Rightarrow>
                          (let startTime = minutes_of ot;
                               endTime = minutes_of ct;
                               isValid = (num_le startTime currentTime \<and> num_le currentTime endTime)
                           in if \<not> isValid
                              then console_debug
                                     [optp gateway ''gatewayId'', openingTime, closingTime] isValid
                              else Some isValid)
                      | _ \<Rightarrow> None)
                 | _ \<Rightarrow> None)))"

text \<open>Filter 3. \<^verbatim>\<open>gateway.provider.trim\<close> is a function only on a string.\<close>

definition checkProvider :: "jsval \<Rightarrow> js_map \<Rightarrow> bool option" where
  "checkProvider gateway providerMap =
     (case getp gateway ''provider'' of
        None \<Rightarrow> None
      | Some gp \<Rightarrow>
          if \<not> truthy gp then console_debug [optp gateway ''gatewayId''] False
          else
            (case gp of
               JStr s \<Rightarrow>
                 if length (trim s) = 0 then console_debug [optp gateway ''gatewayId''] False
                 else
                   (let provider = map_get providerMap gp in
                    if \<not> truthy provider
                    then console_debug [optp gateway ''gatewayId'', gp] False
                    else if \<not> truthy (optp provider ''isActive'') \<or> truthy (optp provider ''isDisabled'')
                    then console_debug
                           [optp gateway ''gatewayId'', gp, optp provider ''isActive'',
                            optp provider ''isDisabled''] False
                    else Some True)
             | _ \<Rightarrow> None))"

text \<open>
  Filter 4: \<^verbatim>\<open>(errors[gateway.provider] || 0) < ERROR_LIMIT\<close>. The provider is converted to
  the key of the record, and the count that is found to a number.
\<close>

definition checkErrorLimit :: "jsval \<Rightarrow> (string \<rightharpoonup> jsnum) \<Rightarrow> bool option" where
  "checkErrorLimit gateway errs =
     (case getp gateway ''provider'' of
        None \<Rightarrow> None
      | Some gp \<Rightarrow>
          if \<not> converts gp then None
          else
            (let errorCount = js_or (record_get errs (to_string gp)) (JNum (Fin 0)) in
             case to_number errorCount of
               None \<Rightarrow> None
             | Some n \<Rightarrow>
                 (let isValid = num_lt n ERROR_LIMIT in
                  if \<not> isValid
                  then console_debug
                         [optp gateway ''gatewayId'', errorCount, JNum ERROR_LIMIT] isValid
                  else Some isValid)))"

text \<open>The filters in their order, the first failing one ending the evaluation.\<close>

definition applyAllFilters ::
  "jsval \<Rightarrow> (string \<rightharpoonup> jsnum) \<Rightarrow> (string \<rightharpoonup> jsnum) \<Rightarrow> js_map \<Rightarrow> date \<Rightarrow> bool option" where
  "applyAllFilters gateway bals errs providerMap now =
     (case checkStatus gateway of
        None \<Rightarrow> None
      | Some ok1 \<Rightarrow>
          if \<not> ok1 then Some False
          else
            (case checkTimeRange gateway providerMap now of
               None \<Rightarrow> None
             | Some ok2 \<Rightarrow>
                 if \<not> ok2 then Some False
                 else
                   (case checkProvider gateway providerMap of
                      None \<Rightarrow> None
                    | Some ok3 \<Rightarrow>
                        if \<not> ok3 then Some False
                        else
                          (case checkErrorLimit gateway errs of
                             None \<Rightarrow> None
                           | Some ok4 \<Rightarrow> if \<not> ok4 then Some False else Some True))))"

subsection \<open>Fees\<close>

text \<open>\<^verbatim>\<open>typeof v === 'object'\<close> and \<^verbatim>\<open>typeof v === 'number'\<close>.\<close>

fun typeof_object :: "jsval \<Rightarrow> bool" where
  "typeof_object JNull = True"
| "typeof_object (JArr xs) = True"
| "typeof_object (JObj kvs) = True"
| "typeof_object (JBuiltin k) = (k = ''__proto__'')"
| "typeof_object _ = False"

fun typeof_number :: "jsval \<Rightarrow> bool" where
  "typeof_number (JNum n) = True"
| "typeof_number _ = False"

text \<open>The object literal \<^verbatim>\<open>{ type: c.type || 'fixed', value: c.value || 0, min: c.min || 0 }\<close>.\<close>

definition fee_triple :: "jsval \<Rightarrow> jsval" where
  "fee_triple c =
     JObj [(''type'', js_or (optp c ''type'') (JStr ''fixed'')),
           (''value'', js_or (optp c ''value'') (JNum (Fin 0))),
           (''min'', js_or (optp c ''min'') (JNum (Fin 0)))]"

definition sanitizeFeeStructure :: "jsval \<Rightarrow> jsval" where
  "sanitizeFeeStructure fee =
     (if \<not> truthy fee then JObj []
      else
        let legacyValue =
              (if truthy (optp fee ''value'') \<and> typeof_object (optp fee ''value'')
               then optp fee ''value'' else JNull);
            legacyType = js_or (optp fee ''type'') (JStr ''fixed'');
            legacy = (\<lambda>direction.
              JObj [(''type'', legacyType),
                    (''value'', optp legacyValue direction),
                    (''min'', js_or (optp legacyValue ''min'') (JNum (Fin 0)))]);
            deposit =
              (if truthy (optp fee ''deposit'') then [(''deposit'', fee_triple (optp fee ''deposit''))]
               else if truthy legacyValue \<and> typeof_number (optp legacyValue ''deposit'')
               then [(''deposit'', legacy ''deposit'')]
               else []);
            withdraw =
              (if truthy (optp fee ''withdraw'') then [(''withdraw'', fee_triple (optp fee ''withdraw''))]
               else if truthy legacyValue \<and> typeof_number (optp legacyValue ''withdraw'')
               then [(''withdraw'', legacy ''withdraw'')]
               else []);
            settlement =
              (if truthy (optp fee ''settlement'') then
                 [(''settlement'',
                   JObj ((if truthy (opt_chain fee [''settlement'', ''normal''])
                          then [(''normal'', fee_triple (opt_chain fee [''settlement'', ''normal'']))]
                          else [])
                       @ (if truthy (opt_chain fee [''settlement'', ''usdt''])
                          then [(''usdt'', fee_triple (opt_chain fee [''settlement'', ''usdt'']))]
                          else [])))]
               else [])
        in JObj (deposit @ withdraw @ settlement))"

text \<open>
  \<^verbatim>\<open>Math.round(((amount * (value || 0)) / 100) * 100) / 100\<close>, every operation in
  doubles, for an operand that has been converted to a number.
\<close>

definition percent_of :: "nat \<Rightarrow> jsnum \<Rightarrow> jsnum" where
  "percent_of amount v =
     num_div
       (math_round (num_mul (num_div (num_mul (Fin (of_nat amount)) v) (Fin 100)) (Fin 100)))
       (Fin 100)"

text \<open>
  \<^verbatim>\<open>calculateFee\<close>. The multiplication and \<^verbatim>\<open>Math.max\<close> convert the configured value and
  minimum to numbers, which throws for a value that does not convert.
\<close>

definition calculateFee :: "nat \<Rightarrow> jsval \<Rightarrow> jsval option" where
  "calculateFee amount feeConfig =
     (if \<not> truthy feeConfig then Some (JNum (Fin 0))
      else if optp feeConfig ''type'' = JStr ''fixed''
      then Some (js_or (optp feeConfig ''value'') (JNum (Fin 0)))
      else if optp feeConfig ''type'' = JStr ''percentage'' \<or> optp feeConfig ''type'' = JStr ''percent''
      then
        (case to_number (js_or (optp feeConfig ''value'') (JNum (Fin 0))) of
           None \<Rightarrow> None
         | Some v \<Rightarrow>
             (let calculatedFee = percent_of amount v in
              case to_number (js_or (optp feeConfig ''min'') (JNum (Fin 0))) of
                None \<Rightarrow> None
              | Some m \<Rightarrow> Some (JNum (math_max calculatedFee m))))
      else Some (JNum (Fin 0)))"

text \<open>
  The loop \<^verbatim>\<open>for (let amount = 50; amount <= 1000; amount += 50)\<close> of
  \<^verbatim>\<open>generateFeeEstimationTable\<close>, which writes one entry of the table in each round.
\<close>

function table_loop :: "nat \<Rightarrow> jsval \<Rightarrow> (string \<times> jsval) list \<Rightarrow> (string \<times> jsval) list option" where
  "table_loop amount feeStructure table =
     (if amount \<le> 1000 then
        (case calculateFee amount (optp feeStructure ''deposit'') of
           None \<Rightarrow> None
         | Some depositFee \<Rightarrow>
             (case calculateFee amount (optp feeStructure ''withdraw'') of
                None \<Rightarrow> None
              | Some withdrawFee \<Rightarrow>
                  table_loop (amount + 50) feeStructure
                    (AList.update (nat_to_string amount)
                       (JObj [(''withdraw'', withdrawFee), (''deposit'', depositFee)]) table)))
      else Some table)"
  by pat_completeness auto
termination
  by (relation "measure (\<lambda>(amount, feeStructure, table). 1001 - amount)") auto

declare table_loop.simps [simp del]

text \<open>
  \<^verbatim>\<open>JSON.stringify\<close> up to the text it prints: a property whose value is \<^verbatim>\<open>undefined\<close> or
  a function is left out, such a value in an array and a number that is not finite are
  printed as \<^verbatim>\<open>null\<close>, and a number is printed as the double it is. Two values have the
  same text exactly when they have the same image here.
\<close>

primrec json_norm :: "jsval \<Rightarrow> jsval" where
  "json_norm JUndefined = JUndefined"
| "json_norm JNull = JNull"
| "json_norm (JBool b) = JBool b"
| "json_norm (JNum n) = (case dnum n of Fin r \<Rightarrow> JNum (Fin r) | _ \<Rightarrow> JNull)"
| "json_norm (JStr s) = JStr s"
| "json_norm (JArr xs) = JArr (map (\<lambda>x. if x = JUndefined then JNull else x) (map json_norm xs))"
| "json_norm (JObj kvs) = JObj (filter (\<lambda>kv. snd kv \<noteq> JUndefined) (map (map_prod id json_norm) kvs))"
| "json_norm (JBuiltin k) = (if k = ''__proto__'' then JObj [] else JUndefined)"

text \<open>
  The memoization of the fee tables, \<^verbatim>\<open>feeTableCache\<close>, is the state of the service: a
  \<^verbatim>\<open>Map\<close> from the printed fee structure to the table built for it. A table is stored
  when its loop has ended, so a call that throws leaves the cache as it was.
\<close>

type_synonym fee_cache = "(jsval \<times> jsval) list"

definition cacheKey :: "jsval \<Rightarrow> jsval" where
  "cacheKey feeStructure =
     json_norm (JObj [(''deposit'', optp feeStructure ''deposit''),
                      (''withdraw'', optp feeStructure ''withdraw'')])"

definition generateFeeEstimationTable :: "fee_cache \<Rightarrow> jsval \<Rightarrow> (jsval \<times> fee_cache) option" where
  "generateFeeEstimationTable cache feeStructure =
     (case map_of cache (cacheKey feeStructure) of
        Some table \<Rightarrow> Some (table, cache)
      | None \<Rightarrow>
          (case table_loop 50 feeStructure [] of
             None \<Rightarrow> None
           | Some entries \<Rightarrow> Some (JObj entries, cache @ [(cacheKey feeStructure, JObj entries)])))"

text \<open>
  The own properties copied by \<^verbatim>\<open>{...option}\<close>. \<^verbatim>\<open>buildOption\<close> spreads a value only
  after it has read a truthy \<^verbatim>\<open>fee\<close> from it, so the value is an object.
\<close>

fun own_entries :: "jsval \<Rightarrow> (string \<times> jsval) list" where
  "own_entries (JObj kvs) = kvs"
| "own_entries _ = []"

definition buildOption :: "fee_cache \<Rightarrow> jsval \<Rightarrow> jsval \<Rightarrow> (jsval \<times> fee_cache) option" where
  "buildOption cache providerOption gatewayOption =
     (let option = nullish_coalesce (nullish_coalesce providerOption gatewayOption) (JObj []) in
      if \<not> truthy (optp option ''fee'') then Some (option, cache)
      else
        (let sanitizedFee = sanitizeFeeStructure (optp option ''fee'') in
         case generateFeeEstimationTable cache sanitizedFee of
           None \<Rightarrow> None
         | Some (feeEstimationTable, cache') \<Rightarrow>
             Some (JObj (AList.update ''feeEstimationTable'' feeEstimationTable
                           (AList.update ''fee'' sanitizedFee (own_entries option))),
                   cache')))"

subsection \<open>The response\<close>

definition limit_chain :: "jsval \<Rightarrow> jsval \<Rightarrow> string \<Rightarrow> string \<Rightarrow> rat \<Rightarrow> jsval" where
  "limit_chain gateway provider direction bound fallback =
     nullish_coalesce
       (nullish_coalesce
          (nullish_coalesce
             (opt_chain gateway [''metaConfig'', ''limit'', direction, bound])
             (opt_chain gateway [''limit'', direction, bound]))
          (opt_chain provider [''limit'', direction, bound]))
       (JNum (Fin fallback))"

definition time_chain :: "jsval \<Rightarrow> jsval \<Rightarrow> string \<Rightarrow> string \<Rightarrow> string \<Rightarrow> jsval" where
  "time_chain gateway provider direction bound fallback =
     js_or
       (js_or
          (js_or
             (opt_chain gateway [''metaConfig'', ''operateTime'', direction, bound])
             (opt_chain gateway [''serviceTime'', direction, bound]))
          (opt_chain provider [''operateTime'', direction, bound]))
       (JStr fallback)"

text \<open>
  The object literal that \<^verbatim>\<open>mapToResponse\<close> returns, its properties in the order in which
  the source writes them, for the option that \<^verbatim>\<open>buildOption\<close> has built. The description
  is the gateway's own if that is truthy, and else a template literal with the provider.
\<close>

definition response_record :: "jsval \<Rightarrow> (string \<rightharpoonup> jsnum) \<Rightarrow> js_map \<Rightarrow> jsval \<Rightarrow> jsval" where
  "response_record gateway bals providerMap option =
     (let provider = map_get providerMap (optp gateway ''provider'');
          depositMin = limit_chain gateway provider ''deposit'' ''min'' 100;
          depositMax = limit_chain gateway provider ''deposit'' ''max'' 1000000;
          withdrawMin = limit_chain gateway provider ''withdraw'' ''min'' 100;
          withdrawMax = limit_chain gateway provider ''withdraw'' ''max'' 1000000;
          serviceTime =
            JObj [(''deposit'',
                   JObj [(''openingTime'', time_chain gateway provider ''deposit'' ''openingTime'' ''00:00''),
                         (''closingTime'', time_chain gateway provider ''deposit'' ''closingTime'' ''23:59'')]),
                  (''withdraw'',
                   JObj [(''openingTime'', time_chain gateway provider ''withdraw'' ''openingTime'' ''00:00''),
                         (''closingTime'', time_chain gateway provider ''withdraw'' ''closingTime'' ''23:59'')])];
          isGroup = truthy (optp gateway ''groupId'');
          type = nullish_coalesce (optp gateway ''type'')
                   (if isGroup then JStr ''group'' else JStr ''individual'');
          description =
            js_or (optp gateway ''description'')
              (if isGroup
               then JStr (''Group '' @ to_string (optp gateway ''provider'') @ '' gateway'')
               else JStr (''Individual '' @ to_string (optp gateway ''provider'') @ '' gateway''))
      in JObj [(''gatewayId'', optp gateway ''gatewayId''),
               (''provider'', optp gateway ''provider''),
               (''name'', optp gateway ''name''),
               (''site'', optp gateway ''site''),
               (''status'', optp gateway ''status''),
               (''paymentMethods'', optp gateway ''paymentMethods''),
               (''min'', depositMin),
               (''max'', depositMax),
               (''limit'',
                JObj [(''deposit'', JObj [(''min'', depositMin), (''max'', depositMax)]),
                      (''withdraw'', JObj [(''min'', withdrawMin), (''max'', withdrawMax)])]),
               (''balanceLimit'',
                nullish_coalesce
                  (nullish_coalesce (opt_chain gateway [''metaConfig'', ''balanceLimit''])
                     (optp gateway ''balanceLimit''))
                  JNull),
               (''type'', type),
               (''isGroup'', JBool isGroup),
               (''isInGroup'', nullish_coalesce (optp gateway ''isInGroup'') (JBool isGroup)),
               (''group'',
                if truthy (optp gateway ''groupId'')
                then JObj [(''groupId'', optp gateway ''groupId''),
                           (''groupName'', optp gateway ''groupId'')]
                else nullish_coalesce (optp gateway ''group'') JNull),
               (''description'', description),
               (''currentBalance'',
                nullish_coalesce
                  (nullish_coalesce (record_get bals (to_string (optp gateway ''gatewayId'')))
                     (optp gateway ''currentBalance''))
                  (JNum (Fin 0))),
               (''totalBalance'',
                nullish_coalesce
                  (nullish_coalesce (record_get bals (to_string (optp gateway ''gatewayId'')))
                     (optp gateway ''totalBalance''))
                  (JNum (Fin 0))),
               (''serviceTime'', serviceTime),
               (''option'', option)])"

text \<open>
  \<^verbatim>\<open>mapToResponse\<close>. It throws on a gateway that is \<^verbatim>\<open>null\<close> or \<^verbatim>\<open>undefined\<close>, whose
  \<^verbatim>\<open>provider\<close> it reads first; when \<^verbatim>\<open>buildOption\<close> throws; when the description is
  the template literal and the provider does not convert to a string; and when the
  \<^verbatim>\<open>gatewayId\<close>, the key of \<^verbatim>\<open>balances[gateway.gatewayId]\<close>, does not convert to a string.
\<close>

definition mapToResponse ::
  "fee_cache \<Rightarrow> jsval \<Rightarrow> (string \<rightharpoonup> jsnum) \<Rightarrow> js_map \<Rightarrow> (jsval \<times> fee_cache) option" where
  "mapToResponse cache gateway bals providerMap =
     (case getp gateway ''provider'' of
        None \<Rightarrow> None
      | Some gp \<Rightarrow>
          (let provider = map_get providerMap gp in
           case buildOption cache (optp provider ''option'') (optp gateway ''option'') of
             None \<Rightarrow> None
           | Some (option, cache') \<Rightarrow>
               if \<not> truthy (optp gateway ''description'') \<and> \<not> template_literal [gp] then None
               else if \<not> converts (optp gateway ''gatewayId'') then None
               else Some (response_record gateway bals providerMap option, cache')))"

subsection \<open>The evaluation\<close>

text \<open>
  \<^verbatim>\<open>gateways.filter(...)\<close>: the predicate is called on every gateway in order, and an
  exception in one call ends the whole evaluation.
\<close>

fun filter_gateways :: "(jsval \<Rightarrow> bool option) \<Rightarrow> jsval list \<Rightarrow> jsval list option" where
  "filter_gateways pred [] = Some []"
| "filter_gateways pred (g # gs) =
     (case pred g of
        None \<Rightarrow> None
      | Some keep \<Rightarrow>
          (case filter_gateways pred gs of
             None \<Rightarrow> None
           | Some rest \<Rightarrow> Some (if keep then g # rest else rest)))"

text \<open>\<^verbatim>\<open>.map(...)\<close> with \<^verbatim>\<open>mapToResponse\<close>, the cache passing from one call to the next.\<close>

fun map_gateways ::
  "fee_cache \<Rightarrow> jsval list \<Rightarrow> (string \<rightharpoonup> jsnum) \<Rightarrow> js_map \<Rightarrow> (jsval list \<times> fee_cache) option" where
  "map_gateways cache [] bals providerMap = Some ([], cache)"
| "map_gateways cache (g # gs) bals providerMap =
     (case mapToResponse cache g bals providerMap of
        None \<Rightarrow> None
      | Some (r, cache1) \<Rightarrow>
          (case map_gateways cache1 gs bals providerMap of
             None \<Rightarrow> None
           | Some (rs, cache2) \<Rightarrow> Some (r # rs, cache2)))"

text \<open>
  The gateways that pass the filters, the first half of \<^verbatim>\<open>evaluateFilters\<close>: the defaults
  of the destructuring, the provider lookup and the \<^verbatim>\<open>filter\<close>.
\<close>

definition the_default :: "'a \<Rightarrow> 'a option \<Rightarrow> 'a" where
  "the_default d x = (case x of None \<Rightarrow> d | Some v \<Rightarrow> v)"

definition eligibleGateways :: "BatchDataResponse \<Rightarrow> date \<Rightarrow> (jsval list \<times> js_map) option" where
  "eligibleGateways batchData now =
     (case buildProviderMap [] (the_default [] (providers batchData)) of
        None \<Rightarrow> None
      | Some providerMap \<Rightarrow>
          (case filter_gateways
                  (\<lambda>gateway. applyAllFilters gateway
                     (the_default Map.empty (balances batchData))
                     (the_default Map.empty (errors batchData)) providerMap now)
                  (the_default [] (gateways batchData)) of
             None \<Rightarrow> None
           | Some kept \<Rightarrow> Some (kept, providerMap)))"

text \<open>
  \<^verbatim>\<open>evaluateFilters\<close>, with the cache of the service before and after the call; \<open>None\<close>
  is a call that throws, after which the service keeps the tables that it had cached before
  the exception (the model does not return the cache then). The \<^verbatim>\<open>request\<close> parameter
  is not read by the source and is left out, and so are the three \<^verbatim>\<open>console.log\<close> calls,
  whose template literals show numbers only.
\<close>

definition evaluateFilters ::
  "fee_cache \<Rightarrow> BatchDataResponse \<Rightarrow> date \<Rightarrow> (jsval list \<times> fee_cache) option" where
  "evaluateFilters cache batchData now =
     (case eligibleGateways batchData now of
        None \<Rightarrow> None
      | Some (kept, providerMap) \<Rightarrow>
          map_gateways cache kept (the_default Map.empty (balances batchData)) providerMap)"

section \<open>Notions used to state the properties\<close>

text \<open>One field of every record of a result, in the order of the result.\<close>

definition result_fields :: "string \<Rightarrow> (jsval list \<times> fee_cache) option \<Rightarrow> jsval list option" where
  "result_fields k res = (case res of None \<Rightarrow> None | Some (rs, cache) \<Rightarrow> Some (map (\<lambda>r. optp r k) rs))"

text \<open>The keys of the object literal that \<^verbatim>\<open>mapToResponse\<close> returns.\<close>

definition response_keys :: "string list" where
  "response_keys =
     [''gatewayId'', ''provider'', ''name'', ''site'', ''status'', ''paymentMethods'',
      ''min'', ''max'', ''limit'', ''balanceLimit'', ''type'', ''isGroup'', ''isInGroup'',
      ''group'', ''description'', ''currentBalance'', ''totalBalance'', ''serviceTime'',
      ''option'']"

text \<open>
  The places of a gateway that \<^verbatim>\<open>applyAllFilters\<close> and \<^verbatim>\<open>mapToResponse\<close> read, each a
  path of property names from the gateway. Two gateways have the same reads when both or
  neither are \<^verbatim>\<open>null\<close> or \<^verbatim>\<open>undefined\<close> and they hold the same value at each of these
  places; whatever else they carry, at the top level or inside \<^verbatim>\<open>metaConfig\<close>,
  \<^verbatim>\<open>limit\<close> or \<^verbatim>\<open>serviceTime\<close>, may differ.
\<close>

definition read_paths :: "string list list" where
  "read_paths =
     [[''gatewayId''], [''provider''], [''name''], [''site''], [''status''], [''paymentMethods''],
      [''metaConfig'', ''limit'', ''deposit'', ''min''], [''metaConfig'', ''limit'', ''deposit'', ''max''],
      [''metaConfig'', ''limit'', ''withdraw'', ''min''], [''metaConfig'', ''limit'', ''withdraw'', ''max''],
      [''limit'', ''deposit'', ''min''], [''limit'', ''deposit'', ''max''],
      [''limit'', ''withdraw'', ''min''], [''limit'', ''withdraw'', ''max''],
      [''metaConfig'', ''operateTime'', ''deposit'', ''openingTime''],
      [''metaConfig'', ''operateTime'', ''deposit'', ''closingTime''],
      [''metaConfig'', ''operateTime'', ''withdraw'', ''openingTime''],
      [''metaConfig'', ''operateTime'', ''withdraw'', ''closingTime''],
      [''serviceTime'', ''deposit'', ''openingTime''], [''serviceTime'', ''deposit'', ''closingTime''],
      [''serviceTime'', ''withdraw'', ''openingTime''], [''serviceTime'', ''withdraw'', ''closingTime''],
      [''metaConfig'', ''balanceLimit''], [''balanceLimit''],
      [''groupId''], [''type''], [''isInGroup''], [''group''], [''description''],
      [''currentBalance''], [''totalBalance''], [''option'']]"

definition same_reads :: "jsval \<Rightarrow> jsval \<Rightarrow> bool" where
  "same_reads g g' =
     (nullish g = nullish g' \<and> list_all (\<lambda>path. opt_chain g path = opt_chain g' path) read_paths)"

text \<open>A snapshot with other gateways in the place of its own.\<close>

definition with_gateways :: "BatchDataResponse \<Rightarrow> jsval list \<Rightarrow> BatchDataResponse" where
  "with_gateways batchData gs = batchData\<lparr>gateways := Some gs\<rparr>"

text \<open>A gateway object with one property set, and with several.\<close>

definition with_field :: "jsval \<Rightarrow> string \<Rightarrow> jsval \<Rightarrow> jsval" where
  "with_field g k v = (case g of JObj kvs \<Rightarrow> JObj (AList.update k v kvs) | _ \<Rightarrow> g)"

fun with_fields :: "jsval \<Rightarrow> (string \<times> jsval) list \<Rightarrow> jsval" where
  "with_fields g [] = g"
| "with_fields g ((k, v) # kvs) = with_fields (with_field g k v) kvs"

text \<open>
  The first present value of a chain, in the words of the specification: a value is present
  when it is neither \<^verbatim>\<open>undefined\<close> nor \<^verbatim>\<open>null\<close>, and the fallback closes the chain.
\<close>

fun first_present :: "jsval list \<Rightarrow> jsval \<Rightarrow> jsval" where
  "first_present [] fallback = fallback"
| "first_present (v # vs) fallback = (if nullish v then first_present vs fallback else v)"

text \<open>
  The option that \<^verbatim>\<open>buildOption\<close> starts from: the provider's, else the gateway's own, else
  the empty object. \<open>option_carried r g provider\<close> says how the \<^verbatim>\<open>option\<close> of the record
  \<open>r\<close> of the gateway \<open>g\<close> comes from it: as it is when it has no truthy \<^verbatim>\<open>fee\<close>, and
  otherwise with all its properties, of which \<^verbatim>\<open>fee\<close> is replaced by the sanitized fee and
  \<^verbatim>\<open>feeEstimationTable\<close> by a table.
\<close>

definition source_option :: "jsval \<Rightarrow> jsval \<Rightarrow> jsval" where
  "source_option g provider = first_present [optp provider ''option'', optp g ''option''] (JObj [])"

definition option_carried :: "jsval \<Rightarrow> jsval \<Rightarrow> jsval \<Rightarrow> bool" where
  "option_carried r g provider =
     (if truthy (optp (source_option g provider) ''fee'')
      then \<exists>table.
             optp r ''option''
               = JObj (AList.update ''feeEstimationTable'' table
                         (AList.update ''fee'' (sanitizeFeeStructure (optp (source_option g provider) ''fee''))
                            (own_entries (source_option g provider))))
      else optp r ''option'' = source_option g provider)"

text \<open>
  The balance that a response shows in \<open>field\<close> (\<^verbatim>\<open>currentBalance\<close> or
  \<^verbatim>\<open>totalBalance\<close>): the entry of the balances for the gateway id, else the gateway's own
  field when it has one, else 0.
\<close>

definition shown_balance :: "(string \<rightharpoonup> jsnum) \<Rightarrow> jsval \<Rightarrow> string \<Rightarrow> jsval" where
  "shown_balance bals g field =
     (case bals (to_string (optp g ''gatewayId'')) of
        Some n \<Rightarrow> JNum n
      | None \<Rightarrow> if nullish (optp g field) then JNum (Fin 0) else optp g field)"

text \<open>
  Rounding to two decimal places in exact arithmetic, a tie going up, and the fee of the
  specification for a configuration of type \<open>t\<close>, value \<open>v\<close> and minimum \<open>m\<close>.
\<close>

definition round2 :: "rat \<Rightarrow> rat" where
  "round2 x = of_int \<lfloor>x * 100 + 1 / 2\<rfloor> / 100"

definition spec_fee :: "string \<Rightarrow> rat \<Rightarrow> rat \<Rightarrow> nat \<Rightarrow> rat" where
  "spec_fee t v m amount =
     (if t = ''fixed'' then v
      else if t = ''percent'' \<or> t = ''percentage'' then max (round2 (of_nat amount * v / 100)) m
      else 0)"

text \<open>
  The same fee in the arithmetic of doubles: the product, the quotient by 100, the product
  by 100 and the quotient of the rounded number by 100 are each rounded to a double.
\<close>

definition double_fee :: "string \<Rightarrow> rat \<Rightarrow> rat \<Rightarrow> nat \<Rightarrow> jsnum" where
  "double_fee t v m amount =
     (if t = ''fixed'' then Fin v
      else if t = ''percent'' \<or> t = ''percentage''
      then math_max (percent_of amount (Fin v)) (Fin m)
      else Fin 0)"

text \<open>A rational that stands for a finite double, and not for an infinity.\<close>

definition finite_double :: "rat \<Rightarrow> bool" where
  "finite_double r = (case double_of r of Fin x \<Rightarrow> True | _ \<Rightarrow> False)"

text \<open>The amounts of the fee table: 50, 100, ..., 1000.\<close>

definition fee_amounts :: "nat list" where
  "fee_amounts = map (\<lambda>i. 50 * i) [1..<21]"

text \<open>A normalized fee configuration: the triple of a type, a value and a minimum.\<close>

definition fee_config :: "string \<Rightarrow> rat \<Rightarrow> rat \<Rightarrow> jsval" where
  "fee_config t v m = JObj [(''type'', JStr t), (''value'', JNum (Fin v)), (''min'', JNum (Fin m))]"

text \<open>
  A fee structure whose configured values and minimums convert to numbers, in both
  directions.
\<close>

definition fee_converts :: "jsval \<Rightarrow> bool" where
  "fee_converts feeStructure =
     list_all (\<lambda>path. converts (opt_chain feeStructure path))
       [[''deposit'', ''value''], [''deposit'', ''min''], [''withdraw'', ''value''], [''withdraw'', ''min'']]"

text \<open>
  The limit of the specification for a direction (\<^verbatim>\<open>deposit\<close>, \<^verbatim>\<open>withdraw\<close>) and a bound
  (\<^verbatim>\<open>min\<close>, \<^verbatim>\<open>max\<close>): the first present value of the gateway's \<^verbatim>\<open>metaConfig.limit\<close>,
  the gateway's \<^verbatim>\<open>limit\<close> and the provider's \<^verbatim>\<open>limit\<close>, and else 100 for a minimum and
  1000000 for a maximum.
\<close>

definition spec_limit :: "jsval \<Rightarrow> jsval \<Rightarrow> string \<Rightarrow> string \<Rightarrow> jsval" where
  "spec_limit gateway provider direction bound =
     first_present
       [opt_chain gateway [''metaConfig'', ''limit'', direction, bound],
        opt_chain gateway [''limit'', direction, bound],
        opt_chain provider [''limit'', direction, bound]]
       (JNum (Fin (if bound = ''min'' then 100 else 1000000)))"

text \<open>The properties of a gateway that the four filters read.\<close>

definition filter_fields :: "string list" where
  "filter_fields = [''status'', ''provider'', ''metaConfig'', ''serviceTime'', ''gatewayId'']"

text \<open>A gateway with other balance fields of its own.\<close>

definition other_balance_fields :: "jsval \<Rightarrow> jsval \<Rightarrow> jsval \<Rightarrow> jsval" where
  "other_balance_fields g x y = with_fields g [(''currentBalance'', x), (''totalBalance'', y)]"

text \<open>
  The invariant of the cache of the service: every table in it was built by
  \<^verbatim>\<open>generateFeeEstimationTable\<close> for a fee structure that \<^verbatim>\<open>sanitizeFeeStructure\<close> returned,
  and is stored under the key of that structure.
\<close>

definition cache_sound :: "fee_cache \<Rightarrow> bool" where
  "cache_sound cache =
     (\<forall>(key, table)\<in>set cache.
        \<exists>fee entries. key = cacheKey (sanitizeFeeStructure fee)
            \<and> table_loop 50 (sanitizeFeeStructure fee) [] = Some entries
            \<and> table = JObj entries)"

text \<open>
  The deposit time that \<^verbatim>\<open>checkTimeRange\<close> resolves for \<open>bound\<close> (\<^verbatim>\<open>openingTime\<close> or
  \<^verbatim>\<open>closingTime\<close>): the first present value of the gateway's \<^verbatim>\<open>metaConfig.operateTime\<close>,
  the gateway's \<^verbatim>\<open>serviceTime\<close> and the provider's \<^verbatim>\<open>operateTime\<close>.
\<close>

definition deposit_time :: "jsval \<Rightarrow> jsval \<Rightarrow> string \<Rightarrow> jsval" where
  "deposit_time gateway provider bound =
     first_present
       [opt_chain gateway [''metaConfig'', ''operateTime'', ''deposit'', bound],
        opt_chain gateway [''serviceTime'', ''deposit'', bound]]
       (opt_chain provider [''operateTime'', ''deposit'', bound])"

text \<open>
  The shape of an input on which the evaluation does not throw. Gateways and providers are
  not \<^verbatim>\<open>null\<close> or \<^verbatim>\<open>undefined\<close>. The \<^verbatim>\<open>provider\<close> of a gateway is falsy (absent, for
  one) or a string, and so is every deposit opening and closing time. The values that a log
  message shows or that are used as a key convert to a string: the \<^verbatim>\<open>gatewayId\<close> and the
  \<^verbatim>\<open>status\<close> of a gateway, the \<^verbatim>\<open>isActive\<close> and \<^verbatim>\<open>isDisabled\<close> of a provider. And
  in the fee of an \<^verbatim>\<open>option\<close>, once sanitized, the deposit and withdraw values and
  minimums convert to numbers.
\<close>

fun falsy_or_string :: "jsval \<Rightarrow> bool" where
  "falsy_or_string (JStr s) = True"
| "falsy_or_string v = (\<not> truthy v)"

definition option_wellformed :: "jsval \<Rightarrow> bool" where
  "option_wellformed option = fee_converts (sanitizeFeeStructure (optp option ''fee''))"

definition gateway_wellformed :: "jsval \<Rightarrow> bool" where
  "gateway_wellformed g =
     (\<not> nullish g \<and> falsy_or_string (optp g ''provider'')
      \<and> list_all (\<lambda>bound.
            falsy_or_string (opt_chain g [''metaConfig'', ''operateTime'', ''deposit'', bound])
          \<and> falsy_or_string (opt_chain g [''serviceTime'', ''deposit'', bound]))
          [''openingTime'', ''closingTime'']
      \<and> converts (optp g ''gatewayId'') \<and> converts (optp g ''status'')
      \<and> option_wellformed (optp g ''option''))"

definition provider_wellformed :: "jsval \<Rightarrow> bool" where
  "provider_wellformed p =
     (\<not> nullish p
      \<and> list_all (\<lambda>bound. falsy_or_string (opt_chain p [''operateTime'', ''deposit'', bound]))
          [''openingTime'', ''closingTime'']
      \<and> converts (optp p ''isActive'') \<and> converts (optp p ''isDisabled'')
      \<and> option_wellformed (optp p ''option''))"

definition snapshot_wellformed :: "BatchDataResponse \<Rightarrow> bool" where
  "snapshot_wellformed batchData =
     (list_all gateway_wellformed (the_default [] (gateways batchData))
      \<and> list_all provider_wellformed (the_default [] (providers batchData)))"

section \<open>Example inputs\<close>

text \<open>
  A gateway with the identity fields and \<^verbatim>\<open>status: true\<close>, a provider that is active and
  not disabled, and a clock at 12:30. They are the concrete inputs at which the properties
  below are instantiated.
\<close>

definition ex_gateway :: jsval where
  "ex_gateway =
     JObj [(''gatewayId'', JStr ''gw-001''), (''provider'', JStr ''provider-a''),
           (''status'', JBool True)]"

definition ex_provider :: jsval where
  "ex_provider =
     JObj [(''provider'', JStr ''provider-a''), (''isActive'', JBool True),
           (''isDisabled'', JBool False)]"

definition ex_now :: date where
  "ex_now = \<lparr>getHours = 12, getMinutes = 30\<rparr>"

definition ex_providerMap :: js_map where
  "ex_providerMap = [(JStr ''provider-a'', ex_provider)]"

text \<open>The snapshot of that one gateway and provider, with \<open>n\<close> errors counted for the provider.\<close>

definition ex_batch :: "rat \<Rightarrow> BatchDataResponse" where
  "ex_batch n =
     \<lparr>gateways = Some [ex_gateway], balances = None,
      errors = Some [''provider-a'' \<mapsto> Fin n], providers = Some [ex_provider]\<rparr>"


definition ex_provider_flags :: "jsval \<Rightarrow> jsval \<Rightarrow> jsval" where
  "ex_provider_flags isActive isDisabled =
     JObj [(''provider'', JStr ''provider-a''), (''isActive'', isActive),
           (''isDisabled'', isDisabled)]"

definition ex_snapshot :: "jsval list \<Rightarrow> jsval list \<Rightarrow> BatchDataResponse" where
  "ex_snapshot gs ps = \<lparr>gateways = Some gs, balances = None, errors = None, providers = Some ps\<rparr>"

text \<open>The record that \<^verbatim>\<open>mapToResponse\<close> builds for \<open>ex_gateway\<close> when no balance is known.\<close>

definition ex_response :: jsval where
  "ex_response =
     JObj [(''gatewayId'', JStr ''gw-001''), (''provider'', JStr ''provider-a''),
           (''name'', JUndefined), (''site'', JUndefined), (''status'', JBool True),
           (''paymentMethods'', JUndefined),
           (''min'', JNum (Fin 100)), (''max'', JNum (Fin 1000000)),
           (''limit'',
            JObj [(''deposit'', JObj [(''min'', JNum (Fin 100)), (''max'', JNum (Fin 1000000))]),
                  (''withdraw'', JObj [(''min'', JNum (Fin 100)), (''max'', JNum (Fin 1000000))])]),
           (''balanceLimit'', JNull), (''type'', JStr ''individual''),
           (''isGroup'', JBool False), (''isInGroup'', JBool False), (''group'', JNull),
           (''description'', JStr ''Individual provider-a gateway''),
           (''currentBalance'', JNum (Fin 0)), (''totalBalance'', JNum (Fin 0)),
           (''serviceTime'',
            JObj [(''deposit'',
                   JObj [(''openingTime'', JStr ''00:00''), (''closingTime'', JStr ''23:59'')]),
                  (''withdraw'',
                   JObj [(''openingTime'', JStr ''00:00''), (''closingTime'', JStr ''23:59'')])]),
           (''option'', JObj [])]"

text \<open>
  A gateway that carries a secret and a storage id, at its top level and inside its
  \<^verbatim>\<open>option\<close>.
\<close>

definition ex_gateway_secret :: jsval where
  "ex_gateway_secret =
     JObj [(''gatewayId'', JStr ''gw-001''), (''provider'', JStr ''provider-a''),
           (''status'', JBool True),
           (''secretKey'', JStr ''SECRET_KEY''), (''_id'', JStr ''507f1f77bcf86cd799439011''),
           (''option'',
            JObj [(''secretKey'', JStr ''SECRET_KEY''), (''_id'', JStr ''507f1f77bcf86cd799439011'')])]"

text \<open>A gateway with balance fields of its own, and one with a limit of its own.\<close>

definition ex_gateway_balance :: jsval where
  "ex_gateway_balance =
     JObj [(''gatewayId'', JStr ''gw-001''), (''provider'', JStr ''provider-a''),
           (''status'', JBool True),
           (''currentBalance'', JNum (Fin 1000)), (''totalBalance'', JNum (Fin 5000))]"

definition ex_gateway_limit :: jsval where
  "ex_gateway_limit =
     JObj [(''gatewayId'', JStr ''gw-001''), (''provider'', JStr ''provider-a''),
           (''status'', JBool True),
           (''metaConfig'',
            JObj [(''limit'', JObj [(''deposit'', JObj [(''min'', JNum (Fin 50))])])])]"

definition ex_provider_limit :: jsval where
  "ex_provider_limit =
     JObj [(''provider'', JStr ''provider-a''), (''isActive'', JBool True),
           (''isDisabled'', JBool False),
           (''limit'', JObj [(''withdraw'', JObj [(''max'', JNum (Fin 50000))])])]"

definition ex_providerMap_limit :: js_map where
  "ex_providerMap_limit = [(JStr ''provider-a'', ex_provider_limit)]"

definition ex_response_limit :: jsval where
  "ex_response_limit = response_record ex_gateway_limit Map.empty ex_providerMap_limit (JObj [])"

definition ex_response_balance :: jsval where
  "ex_response_balance = response_record ex_gateway_balance Map.empty ex_providerMap (JObj [])"

text \<open>The gateway with balance fields of its own, in a snapshot that knows its balance.\<close>

definition ex_balances :: "string \<rightharpoonup> jsnum" where
  "ex_balances = [''gw-001'' \<mapsto> Fin 77]"

definition ex_batch_balance :: BatchDataResponse where
  "ex_batch_balance =
     \<lparr>gateways = Some [ex_gateway_balance], balances = Some ex_balances, errors = None,
      providers = Some [ex_provider]\<rparr>"

definition ex_response_entry :: jsval where
  "ex_response_entry = response_record ex_gateway_balance ex_balances ex_providerMap (JObj [])"

definition ex_response_secret :: jsval where
  "ex_response_secret =
     response_record ex_gateway_secret Map.empty ex_providerMap
       (JObj [(''secretKey'', JStr ''SECRET_KEY''), (''_id'', JStr ''507f1f77bcf86cd799439011'')])"

text \<open>The fee schedule of the tests: 1.5 percent on deposits, 0.5 percent on withdrawals.\<close>

definition ex_fee :: jsval where
  "ex_fee =
     JObj [(''deposit'',
            JObj [(''type'', JStr ''percent''), (''value'', JNum (Fin (3 / 2))), (''min'', JNum (Fin 0))]),
           (''withdraw'',
            JObj [(''type'', JStr ''percent''), (''value'', JNum (Fin (1 / 2))), (''min'', JNum (Fin 0))])]"

text \<open>
  Gateways with defects: one without \<^verbatim>\<open>gatewayId\<close>, one without \<^verbatim>\<open>provider\<close>, and
  three with a deposit window in their \<^verbatim>\<open>metaConfig\<close>: an opening time that is no time
  and no closing time; an opening time that is no time, with a closing time; an opening time
  that is a number, with a closing time.
\<close>

definition ex_gateway_noid :: jsval where
  "ex_gateway_noid = JObj [(''provider'', JStr ''provider-a''), (''status'', JBool True)]"

definition ex_gateway_noprovider :: jsval where
  "ex_gateway_noprovider = JObj [(''gatewayId'', JStr ''gw-002''), (''status'', JBool True)]"

definition ex_gateway_window :: "(string \<times> jsval) list \<Rightarrow> jsval" where
  "ex_gateway_window window =
     JObj [(''gatewayId'', JStr ''gw-003''), (''provider'', JStr ''provider-a''),
           (''status'', JBool True),
           (''metaConfig'', JObj [(''operateTime'', JObj [(''deposit'', JObj window)])])]"

definition ex_gateway_open_only :: jsval where
  "ex_gateway_open_only = ex_gateway_window [(''openingTime'', JStr ''abc'')]"

definition ex_gateway_bad_open :: jsval where
  "ex_gateway_bad_open =
     ex_gateway_window [(''openingTime'', JStr ''abc''), (''closingTime'', JStr ''23:59'')]"

definition ex_gateway_number_open :: jsval where
  "ex_gateway_number_open =
     ex_gateway_window [(''openingTime'', JNum (Fin 900)), (''closingTime'', JStr ''23:59'')]"

definition ex_response_noid :: jsval where
  "ex_response_noid = response_record ex_gateway_noid Map.empty ex_providerMap (JObj [])"

definition ex_response_open_only :: jsval where
  "ex_response_open_only = response_record ex_gateway_open_only Map.empty ex_providerMap (JObj [])"

definition ex_batch_defects :: BatchDataResponse where
  "ex_batch_defects =
     ex_snapshot [ex_gateway_noprovider, ex_gateway, ex_gateway_bad_open] [ex_provider]"


text \<open>
  A snapshot of five gateways, of which the second has no provider and the fourth has the
  status \<^verbatim>\<open>false\<close>; the ids of the three others are not in alphabetical order.
\<close>

definition ex_gateway_id :: "string \<Rightarrow> jsval" where
  "ex_gateway_id gid =
     JObj [(''gatewayId'', JStr gid), (''provider'', JStr ''provider-a''), (''status'', JBool True)]"

definition ex_gateway_off :: jsval where
  "ex_gateway_off =
     JObj [(''gatewayId'', JStr ''gw-off''), (''provider'', JStr ''provider-a''),
           (''status'', JBool False)]"

definition ex_batch_order :: BatchDataResponse where
  "ex_batch_order =
     ex_snapshot
       [ex_gateway_id ''gw-c'', ex_gateway_noprovider, ex_gateway_id ''gw-a'', ex_gateway_off,
        ex_gateway_id ''gw-b'']
       [ex_provider]"

definition ex_responses_order :: "jsval list" where
  "ex_responses_order =
     map (\<lambda>g. response_record g Map.empty ex_providerMap (JObj []))
       [ex_gateway_id ''gw-c'', ex_gateway_id ''gw-a'', ex_gateway_id ''gw-b'']"

text \<open>
  A gateway and a provider entry for a provider that is called \<^verbatim>\<open>constructor\<close>, in a
  snapshot whose error counts have no entry at all.
\<close>

definition ex_gateway_constructor :: jsval where
  "ex_gateway_constructor =
     JObj [(''gatewayId'', JStr ''gw-001''), (''provider'', JStr ''constructor''),
           (''status'', JBool True)]"

definition ex_provider_constructor :: jsval where
  "ex_provider_constructor =
     JObj [(''provider'', JStr ''constructor''), (''isActive'', JBool True),
           (''isDisabled'', JBool False)]"

definition ex_batch_constructor :: BatchDataResponse where
  "ex_batch_constructor =
     \<lparr>gateways = Some [ex_gateway_constructor], balances = None, errors = Some Map.empty,
      providers = Some [ex_provider_constructor]\<rparr>"

text \<open>
  The gateway with a secret again, with a limit of its own, and the same gateway with more
  keys that are not read: at its top level, inside its \<^verbatim>\<open>metaConfig\<close> and inside the
  limit there.
\<close>

definition ex_gateway_nested :: jsval where
  "ex_gateway_nested =
     JObj [(''gatewayId'', JStr ''gw-001''), (''provider'', JStr ''provider-a''),
           (''status'', JBool True),
           (''metaConfig'',
            JObj [(''limit'', JObj [(''deposit'', JObj [(''min'', JNum (Fin 50))])])])]"

definition ex_gateway_nested_secret :: jsval where
  "ex_gateway_nested_secret =
     JObj [(''_id'', JStr ''507f1f77bcf86cd799439011''),
           (''gatewayId'', JStr ''gw-001''), (''provider'', JStr ''provider-a''),
           (''status'', JBool True),
           (''secretKey'', JStr ''SECRET_KEY''),
           (''metaConfig'',
            JObj [(''apiKey'', JStr ''API_KEY''),
                  (''limit'',
                   JObj [(''deposit'', JObj [(''min'', JNum (Fin 50)), (''__v'', JNum (Fin 3))]),
                         (''updatedAt'', JStr ''2024-01-02'')])])]"

definition ex_response_nested :: jsval where
  "ex_response_nested = response_record ex_gateway_nested Map.empty ex_providerMap (JObj [])"

text \<open>A status that is an object with a property \<^verbatim>\<open>toString\<close>, which is no function.\<close>

definition ex_status_object :: jsval where
  "ex_status_object = JObj [(''toString'', JNum (Fin 1))]"
section \<open>The structure of an evaluation\<close>

lemma filter_gateways_Some:
  "filter_gateways pred gs = Some kept \<Longrightarrow> kept = filter (\<lambda>g. pred g = Some True) gs"
  by (induction gs arbitrary: kept) (auto split: option.splits if_splits)

lemma filter_gateways_None_iff:
  "filter_gateways pred gs = None \<longleftrightarrow> (\<exists>g\<in>set gs. pred g = None)"
  by (induction gs) (auto split: option.splits)

lemma getp_optp: "getp g k = (if nullish g then None else Some (optp g k))"
  by (simp add: getp_def)

text \<open>What a call of \<^verbatim>\<open>mapToResponse\<close> that returns has returned.\<close>

lemma mapToResponse_SomeD:
  assumes "mapToResponse cache g bals pm = Some (r, cache')"
  shows "\<not> nullish g"
    and "converts (optp g ''gatewayId'')"
    and "\<exists>opt. r = response_record g bals pm opt
           \<and> buildOption cache (optp (map_get pm (optp g ''provider'')) ''option'') (optp g ''option'')
               = Some (opt, cache')"
  using assms
  by (auto simp: mapToResponse_def getp_optp Let_def split: if_splits option.splits)

lemma map_gateways_Some:
  "map_gateways cache gs bals pm = Some (rs, cache') \<Longrightarrow>
   list_all2 (\<lambda>r g. \<exists>ci co. mapToResponse ci g bals pm = Some (r, co)) rs gs"
proof (induction gs arbitrary: cache rs)
  case Nil
  then show ?case by simp
next
  case (Cons g gs)
  then show ?case by (auto split: option.splits prod.splits)
qed

lemma map_gateways_None_iff:
  "map_gateways cache gs bals pm = None \<longleftrightarrow>
     \<not> (\<exists>rs cache'. map_gateways cache gs bals pm = Some (rs, cache'))"
  by (cases "map_gateways cache gs bals pm") auto

lemma eligibleGateways_Some:
  assumes "eligibleGateways batchData now = Some (kept, pm)"
  shows "buildProviderMap [] (the_default [] (providers batchData)) = Some pm"
    and "kept = filter (\<lambda>g. applyAllFilters g (the_default Map.empty (balances batchData))
                 (the_default Map.empty (errors batchData)) pm now = Some True)
                 (the_default [] (gateways batchData))"
  using assms filter_gateways_Some
  by (auto simp: eligibleGateways_def split: option.splits)



text \<open>Facts about the example inputs, shared by the instances below.\<close>

lemma ex_eligible:
  "eligibleGateways (ex_batch 4) ex_now = Some ([ex_gateway], ex_providerMap)"
  by code_simp

lemma ex_member: "ex_gateway \<in> set (the_default [] (gateways (ex_batch n)))"
  by (simp add: ex_batch_def the_default_def)

lemma ex_checkStatus: "checkStatus ex_gateway = Some True"
  by code_simp

lemma ex_checkTimeRange: "checkTimeRange ex_gateway ex_providerMap ex_now = Some True"
  by code_simp

lemma ex_checkProvider: "checkProvider ex_gateway ex_providerMap = Some True"
  by code_simp

lemma ex_provider_name: "getp ex_gateway ''provider'' = Some (JStr ''provider-a'')"
  by code_simp

lemma ex_checkErrorLimit: "checkErrorLimit ex_gateway (the_default Map.empty (errors (ex_batch 4))) = Some True"
  by code_simp

lemma ex_evaluate: "evaluateFilters [] (ex_batch 4) ex_now = Some ([ex_response], [])"
  by code_simp

section \<open>What a response depends on\<close>

lemma evaluateFilters_SomeD:
  assumes "evaluateFilters cache batchData now = Some (rs, cache')"
  shows "\<exists>kept pm. eligibleGateways batchData now = Some (kept, pm)
           \<and> list_all2 (\<lambda>r g. \<exists>ci co. mapToResponse ci g
                 (the_default Map.empty (balances batchData)) pm = Some (r, co)) rs kept"
proof -
  obtain kept pm where elig: "eligibleGateways batchData now = Some (kept, pm)"
    and run: "map_gateways cache kept (the_default Map.empty (balances batchData)) pm = Some (rs, cache')"
    using assms by (auto simp: evaluateFilters_def split: option.splits)
  show ?thesis using elig map_gateways_Some[OF run] by blast
qed

lemma evaluateFilters_records:
  assumes "evaluateFilters cache batchData now = Some (rs, cache')"
  shows "\<exists>kept pm. eligibleGateways batchData now = Some (kept, pm)
           \<and> list_all2 (\<lambda>r g. \<exists>opt. r = response_record g
                 (the_default Map.empty (balances batchData)) pm opt) rs kept"
proof -
  obtain kept pm where elig: "eligibleGateways batchData now = Some (kept, pm)"
    and resp: "list_all2 (\<lambda>r g. \<exists>ci co. mapToResponse ci g
                 (the_default Map.empty (balances batchData)) pm = Some (r, co)) rs kept"
    using evaluateFilters_SomeD[OF assms] by blast
  have "list_all2 (\<lambda>r g. \<exists>opt. r = response_record g
                 (the_default Map.empty (balances batchData)) pm opt) rs kept"
    using resp by (rule list_all2_mono) (auto dest: mapToResponse_SomeD(3))
  then show ?thesis using elig by blast
qed

lemma own_property_update:
  "own_property (AList.update k v kvs) k' = (if k' = k then v else own_property kvs k')"
  by (simp add: own_property_def update_conv')

lemma optp_with_field_other: "k' \<noteq> k \<Longrightarrow> optp (with_field g k v) k' = optp g k'"
  by (cases g) (simp_all add: with_field_def own_property_update)

lemma nullish_with_field: "nullish (with_field g k v) = nullish g"
  by (cases g) (simp_all add: with_field_def)

lemma getp_with_field_other: "k' \<noteq> k \<Longrightarrow> getp (with_field g k v) k' = getp g k'"
  by (simp add: getp_optp nullish_with_field optp_with_field_other)

lemma response_record_keys:
  "\<exists>kvs. response_record g bals pm opt = JObj kvs \<and> map fst kvs = response_keys"
  by (simp add: response_record_def response_keys_def Let_def)

lemma response_record_balance:
  "optp (response_record g bals pm opt) ''currentBalance''
     = nullish_coalesce
         (nullish_coalesce (record_get bals (to_string (optp g ''gatewayId''))) (optp g ''currentBalance''))
         (JNum (Fin 0))"
  "optp (response_record g bals pm opt) ''totalBalance''
     = nullish_coalesce
         (nullish_coalesce (record_get bals (to_string (optp g ''gatewayId''))) (optp g ''totalBalance''))
         (JNum (Fin 0))"
  by (simp_all add: response_record_def Let_def own_property_def)

lemma response_record_shown_balance:
  assumes "bals (to_string (optp g ''gatewayId'')) \<noteq> None
         \<or> to_string (optp g ''gatewayId'') \<notin> set object_prototype_names"
  shows "optp (response_record g bals pm opt) ''currentBalance'' = shown_balance bals g ''currentBalance''"
    and "optp (response_record g bals pm opt) ''totalBalance'' = shown_balance bals g ''totalBalance''"
  using assms
  by (auto simp: response_record_balance shown_balance_def record_get_def nullish_coalesce_def
      split: option.splits)

lemma response_record_limit:
  "opt_chain (response_record g bals pm opt) [''limit'', ''deposit'', ''min''] = limit_chain g (map_get pm (optp g ''provider'')) ''deposit'' ''min'' 100"
  "opt_chain (response_record g bals pm opt) [''limit'', ''deposit'', ''max''] = limit_chain g (map_get pm (optp g ''provider'')) ''deposit'' ''max'' 1000000"
  "opt_chain (response_record g bals pm opt) [''limit'', ''withdraw'', ''min''] = limit_chain g (map_get pm (optp g ''provider'')) ''withdraw'' ''min'' 100"
  "opt_chain (response_record g bals pm opt) [''limit'', ''withdraw'', ''max''] = limit_chain g (map_get pm (optp g ''provider'')) ''withdraw'' ''max'' 1000000"
  "optp (response_record g bals pm opt) ''min'' = limit_chain g (map_get pm (optp g ''provider'')) ''deposit'' ''min'' 100"
  "optp (response_record g bals pm opt) ''max'' = limit_chain g (map_get pm (optp g ''provider'')) ''deposit'' ''max'' 1000000"
  by (simp_all add: response_record_def Let_def own_property_def opt_chain_def)

lemma response_record_option: "optp (response_record g bals pm opt) ''option'' = opt"
  by (simp add: response_record_def Let_def own_property_def)


lemma limit_chain_first_present:
  "limit_chain g provider direction bound fallback =
     first_present [opt_chain g [''metaConfig'', ''limit'', direction, bound],
                    opt_chain g [''limit'', direction, bound],
                    opt_chain provider [''limit'', direction, bound]] (JNum (Fin fallback))"
  by (simp add: limit_chain_def nullish_coalesce_def)

text \<open>A property that the filters do not read has no effect on them.\<close>

lemma applyAllFilters_with_field_gen:
  assumes "k \<notin> set filter_fields"
  shows "applyAllFilters (with_field g k v) bals errs pm now = applyAllFilters g bals errs pm now"
proof -
  have ne: "\<And>k'. k' \<in> set filter_fields \<Longrightarrow> optp (with_field g k v) k' = optp g k'"
    using assms optp_with_field_other by metis
  have ge: "\<And>k'. k' \<in> set filter_fields \<Longrightarrow> getp (with_field g k v) k' = getp g k'"
    using assms getp_with_field_other by metis
  show ?thesis
    unfolding applyAllFilters_def checkStatus_def checkTimeRange_def checkProvider_def
      checkErrorLimit_def opt_chain_def
    by (simp add: ne ge filter_fields_def Let_def cong: option.case_cong if_cong jsval.case_cong)
qed

lemma mapToResponse_balance_fields:
  assumes "bals (to_string (optp g ''gatewayId'')) = Some n"
  shows "mapToResponse cache (with_fields g [(''currentBalance'', x), (''totalBalance'', y)]) bals pm
           = mapToResponse cache g bals pm"
proof (cases "\<exists>kvs. g = JObj kvs")
  case False
  then have "with_fields g [(''currentBalance'', x), (''totalBalance'', y)] = g"
    by (cases g) (simp_all add: with_field_def)
  then show ?thesis by simp
next
  case True
  then obtain kvs where g: "g = JObj kvs" by blast
  let ?g' = "with_field (with_field g ''currentBalance'' x) ''totalBalance'' y"
  have rd: "\<And>k. k \<noteq> ''currentBalance'' \<Longrightarrow> k \<noteq> ''totalBalance'' \<Longrightarrow> optp ?g' k = optp g k"
    by (simp add: optp_with_field_other)
  have bal: "record_get bals (to_string (optp g ''gatewayId'')) = JNum n"
    using assms by (simp add: record_get_def)
  have nl: "nullish ?g' = nullish g"
    by (simp add: nullish_with_field)
  have rec: "\<And>opt. response_record ?g' bals pm opt = response_record g bals pm opt"
    unfolding response_record_def limit_chain_def time_chain_def opt_chain_def
    by (simp add: rd bal nullish_coalesce_def Let_def)
  show ?thesis
    unfolding mapToResponse_def getp_optp
    by (simp add: nl rd rec Let_def cong: option.case_cong if_cong)
qed

lemma list_all2_and_right:
  "list_all2 P xs ys \<Longrightarrow> \<forall>y\<in>set ys. Q y \<Longrightarrow> list_all2 (\<lambda>x y. P x y \<and> Q y) xs ys"
  by (induction rule: list_all2_induct) auto



section \<open>The claims\<close>

subsection \<open>The provider gate\<close>

text \<open>
  What \<^verbatim>\<open>checkProvider\<close> decides for a gateway whose \<^verbatim>\<open>provider\<close> is a string, when the
  values that its log messages show convert to strings: the provider is not blank, the
  lookup has an entry for it, and the entry's \<^verbatim>\<open>isActive\<close> is truthy and its
  \<^verbatim>\<open>isDisabled\<close> falsy.
\<close>

lemma checkProvider_iff:
  assumes "getp g ''provider'' = Some (JStr p)"
    and "converts (optp g ''gatewayId'')"
    and "converts (optp (map_get pm (JStr p)) ''isActive'')"
    and "converts (optp (map_get pm (JStr p)) ''isDisabled'')"
  shows "checkProvider g pm =
           Some (trim p \<noteq> [] \<and> truthy (map_get pm (JStr p))
               \<and> truthy (optp (map_get pm (JStr p)) ''isActive'')
               \<and> \<not> truthy (optp (map_get pm (JStr p)) ''isDisabled''))"
proof (cases "p = []")
  case True
  then show ?thesis
    using assms by (simp add: checkProvider_def trim_def console_debug_def template_literal_def)
next
  case False
  then show ?thesis
    using assms by (auto simp: checkProvider_def Let_def console_debug_def template_literal_def)
qed

text \<open>
  Claim C2 at a provider entry whose \<^verbatim>\<open>isActive\<close> and \<^verbatim>\<open>isDisabled\<close> are both
  \<^verbatim>\<open>null\<close>: the gateway has \<^verbatim>\<open>status: true\<close>, its provider is registered, the status,
  time-window and error-rate gates pass, and \<^verbatim>\<open>evaluateFilters\<close> returns the empty list,
  because \<^verbatim>\<open>checkProvider\<close> tests \<^verbatim>\<open>!provider.isActive\<close>.
\<close>

theorem provider_null_flags_excluded:
  "buildProviderMap [] [ex_provider_flags JNull JNull]
     = Some [(JStr ''provider-a'', ex_provider_flags JNull JNull)]
   \<and> checkStatus ex_gateway = Some True
   \<and> checkTimeRange ex_gateway [(JStr ''provider-a'', ex_provider_flags JNull JNull)] ex_now = Some True
   \<and> checkErrorLimit ex_gateway Map.empty = Some True
   \<and> checkProvider ex_gateway [(JStr ''provider-a'', ex_provider_flags JNull JNull)] = Some False
   \<and> evaluateFilters [] (ex_snapshot [ex_gateway] [ex_provider_flags JNull JNull]) ex_now
       = Some ([], [])"
  by code_simp

text \<open>The result at that input, read off the evaluation above: no gateway is returned.\<close>

theorem provider_null_flags_excluded_witness:
  "result_fields ''gatewayId''
     (evaluateFilters [] (ex_snapshot [ex_gateway] [ex_provider_flags JNull JNull]) ex_now)
   = Some []"
  using provider_null_flags_excluded by (simp add: result_fields_def)

subsection \<open>The status gate\<close>








subsection \<open>Length and order of the result\<close>

lemma ex_evaluate_order:
  "evaluateFilters [] ex_batch_order ex_now = Some (ex_responses_order, [])"
  by code_simp

lemma ex_eligible_order:
  "eligibleGateways ex_batch_order ex_now
     = Some ([ex_gateway_id ''gw-c'', ex_gateway_id ''gw-a'', ex_gateway_id ''gw-b''], ex_providerMap)"
  by code_simp

lemma ex_order_facts:
  "the_default [] (gateways ex_batch_order)
     = [ex_gateway_id ''gw-c'', ex_gateway_noprovider, ex_gateway_id ''gw-a'', ex_gateway_off,
        ex_gateway_id ''gw-b'']"
  "map (\<lambda>r. optp r ''gatewayId'') ex_responses_order = [JStr ''gw-c'', JStr ''gw-a'', JStr ''gw-b'']"
  "map (\<lambda>g. optp g ''gatewayId'') (the_default [] (gateways ex_batch_order))
     = [JStr ''gw-c'', JStr ''gw-002'', JStr ''gw-a'', JStr ''gw-off'', JStr ''gw-b'']"
  by code_simp+

text \<open>
  Claim C4. When \<^verbatim>\<open>evaluateFilters\<close> returns, its result is no longer than the list of input
  gateways, and it is the list of the responses of a subsequence of the input gateways in
  their input order: the gateways that pass \<^verbatim>\<open>applyAllFilters\<close>, each mapped by
  \<^verbatim>\<open>mapToResponse\<close> at its place.
\<close>

theorem output_stable_subsequence:
  assumes "evaluateFilters cache batchData now = Some (rs, cache')"
  shows "length rs \<le> length (the_default [] (gateways batchData))
       \<and> (\<exists>kept providerMap.
            eligibleGateways batchData now = Some (kept, providerMap)
          \<and> kept = filter (\<lambda>g. applyAllFilters g (the_default Map.empty (balances batchData))
                      (the_default Map.empty (errors batchData)) providerMap now = Some True)
                     (the_default [] (gateways batchData))
          \<and> subseq kept (the_default [] (gateways batchData))
          \<and> list_all2 (\<lambda>r g. \<exists>ci co. mapToResponse ci g
                      (the_default Map.empty (balances batchData)) providerMap = Some (r, co))
               rs kept)"
proof -
  obtain kept pm where elig: "eligibleGateways batchData now = Some (kept, pm)"
    and run: "map_gateways cache kept (the_default Map.empty (balances batchData)) pm = Some (rs, cache')"
    using assms by (auto simp: evaluateFilters_def split: option.splits)
  let ?gs = "the_default [] (gateways batchData)"
  have kept: "kept = filter (\<lambda>g. applyAllFilters g (the_default Map.empty (balances batchData))
                      (the_default Map.empty (errors batchData)) pm now = Some True) ?gs"
    by (rule eligibleGateways_Some(2)[OF elig])
  have sub: "subseq kept ?gs"
    by (subst kept) (rule subseq_filter_left)
  have resp: "list_all2 (\<lambda>r g. \<exists>ci co. mapToResponse ci g
                      (the_default Map.empty (balances batchData)) pm = Some (r, co)) rs kept"
    by (rule map_gateways_Some[OF run])
  have "length rs = length kept"
    using resp by (rule list_all2_lengthD)
  also have "\<dots> \<le> length ?gs"
    by (subst kept) (rule length_filter_le)
  finally have len: "length rs \<le> length ?gs" .
  show ?thesis
    using len elig kept sub resp by blast
qed

text \<open>
  At the example, five gateways come in, with the ids \<^verbatim>\<open>gw-c\<close>, \<^verbatim>\<open>gw-002\<close>,
  \<^verbatim>\<open>gw-a\<close>, \<^verbatim>\<open>gw-off\<close> and \<^verbatim>\<open>gw-b\<close> in this order. The second and the fourth are
  dropped, and the result shows the three others in the order \<^verbatim>\<open>gw-c\<close>, \<^verbatim>\<open>gw-a\<close>,
  \<^verbatim>\<open>gw-b\<close>, in which they came and which is not the order of their ids.
\<close>

theorem output_stable_subsequence_witness:
  "evaluateFilters [] ex_batch_order ex_now = Some (ex_responses_order, [])
   \<and> map (\<lambda>g. optp g ''gatewayId'') (the_default [] (gateways ex_batch_order))
       = [JStr ''gw-c'', JStr ''gw-002'', JStr ''gw-a'', JStr ''gw-off'', JStr ''gw-b'']
   \<and> map (\<lambda>r. optp r ''gatewayId'') ex_responses_order = [JStr ''gw-c'', JStr ''gw-a'', JStr ''gw-b'']
   \<and> length ex_responses_order \<le> length (the_default [] (gateways ex_batch_order))
   \<and> eligibleGateways ex_batch_order ex_now
       = Some ([ex_gateway_id ''gw-c'', ex_gateway_id ''gw-a'', ex_gateway_id ''gw-b''], ex_providerMap)
   \<and> subseq [ex_gateway_id ''gw-c'', ex_gateway_id ''gw-a'', ex_gateway_id ''gw-b'']
        [ex_gateway_id ''gw-c'', ex_gateway_noprovider, ex_gateway_id ''gw-a'', ex_gateway_off,
         ex_gateway_id ''gw-b'']
   \<and> list_all2 (\<lambda>r g. \<exists>ci co. mapToResponse ci g
                  (the_default Map.empty (balances ex_batch_order)) ex_providerMap = Some (r, co))
        ex_responses_order
        [ex_gateway_id ''gw-c'', ex_gateway_id ''gw-a'', ex_gateway_id ''gw-b'']"
proof -
  obtain kept pm where len: "length ex_responses_order \<le> length (the_default [] (gateways ex_batch_order))"
    and elig: "eligibleGateways ex_batch_order ex_now = Some (kept, pm)"
    and sub: "subseq kept (the_default [] (gateways ex_batch_order))"
    and resp: "list_all2 (\<lambda>r g. \<exists>ci co. mapToResponse ci g
                  (the_default Map.empty (balances ex_batch_order)) pm = Some (r, co))
                ex_responses_order kept"
    using output_stable_subsequence[OF ex_evaluate_order] by blast
  have k: "kept = [ex_gateway_id ''gw-c'', ex_gateway_id ''gw-a'', ex_gateway_id ''gw-b'']"
    and p: "pm = ex_providerMap"
    using elig ex_eligible_order by simp_all
  show ?thesis
    using ex_evaluate_order ex_order_facts(2,3) len ex_eligible_order sub resp
    unfolding k p ex_order_facts(1) by blast
qed

subsection \<open>The error-rate gate\<close>

text \<open>
  What \<^verbatim>\<open>checkErrorLimit\<close> decides for a gateway whose \<^verbatim>\<open>provider\<close> is a string \<open>p\<close>
  and whose \<^verbatim>\<open>gatewayId\<close> converts to a string, when the error counts have an entry for
  \<open>p\<close> or \<open>p\<close> is not the name of a member of \<^verbatim>\<open>Object.prototype\<close>: the gateway fails
  exactly when the count is at least 5, an absent entry counting as 0.
\<close>

lemma double_of_small: "double_of 0 = Fin 0" "double_of 5 = Fin 5"
  by code_simp+

lemma checkErrorLimit_iff:
  assumes "getp g ''provider'' = Some (JStr p)"
    and "converts (optp g ''gatewayId'')"
    and "errs p \<noteq> None \<or> p \<notin> set object_prototype_names"
  shows "checkErrorLimit g errs = Some (\<not> num_le (Fin 5) (the_default (Fin 0) (errs p)))"
proof (cases "errs p")
  case None
  then have "record_get errs p = JUndefined"
    using assms(3) by (simp add: record_get_def)
  then show ?thesis
    using assms(1,2) None
    by (simp add: checkErrorLimit_def js_or_def to_number_def ERROR_LIMIT_def the_default_def
        num_lt_def num_le_def double_of_small console_debug_def template_literal_def)
next
  case (Some n)
  then have rg: "record_get errs p = JNum n"
    by (simp add: record_get_def)
  show ?thesis
  proof (cases "truthy (JNum n)")
    case True
    then show ?thesis
      using assms(1,2) Some rg
      by (cases "dnum n")
        (auto simp: checkErrorLimit_def js_or_def to_number_def ERROR_LIMIT_def the_default_def
          num_lt_def num_le_def double_of_small console_debug_def template_literal_def Let_def)
  next
    case False
    then show ?thesis
      using assms(1,2) Some rg
      by (cases "dnum n")
        (auto simp: checkErrorLimit_def js_or_def to_number_def ERROR_LIMIT_def the_default_def
          num_lt_def num_le_def double_of_small console_debug_def template_literal_def Let_def)
  qed
qed

text \<open>
  Claim C6 at a provider that is called \<^verbatim>\<open>constructor\<close>. The gateway has
  \<^verbatim>\<open>status: true\<close>, its provider is registered, active and not disabled, the status,
  time-window and provider gates pass, and the error counts have no entry for the provider,
  which the claim treats as a count of 0. But \<^verbatim>\<open>errors[gateway.provider]\<close> finds the
  member \<^verbatim>\<open>constructor\<close> that every object inherits, a function, which is truthy and is
  not less than 5: \<^verbatim>\<open>checkErrorLimit\<close> rejects the gateway and \<^verbatim>\<open>evaluateFilters\<close>
  returns the empty list. For the provider \<^verbatim>\<open>provider-a\<close>, in the same snapshot
  otherwise, the gateway is returned.
\<close>

theorem error_limit_inherited_member:
  "the_default Map.empty (errors ex_batch_constructor) ''constructor'' = None
   \<and> buildProviderMap [] [ex_provider_constructor]
       = Some [(JStr ''constructor'', ex_provider_constructor)]
   \<and> checkStatus ex_gateway_constructor = Some True
   \<and> checkTimeRange ex_gateway_constructor [(JStr ''constructor'', ex_provider_constructor)] ex_now
       = Some True
   \<and> checkProvider ex_gateway_constructor [(JStr ''constructor'', ex_provider_constructor)] = Some True
   \<and> record_get Map.empty ''constructor'' = JBuiltin ''constructor''
   \<and> checkErrorLimit ex_gateway_constructor Map.empty = Some False
   \<and> evaluateFilters [] ex_batch_constructor ex_now = Some ([], [])
   \<and> evaluateFilters [] (ex_snapshot [ex_gateway] [ex_provider]) ex_now = Some ([ex_response], [])"
  by code_simp

text \<open>The result at that input, read off the evaluation above: no gateway is returned.\<close>

theorem error_limit_inherited_member_witness:
  "result_fields ''gatewayId'' (evaluateFilters [] ex_batch_constructor ex_now) = Some []"
  using error_limit_inherited_member by (simp add: result_fields_def)

subsection \<open>The balance fields\<close>

lemma ex_evaluate_balance:
  "evaluateFilters [] (ex_snapshot [ex_gateway_balance] [ex_provider]) ex_now
     = Some ([ex_response_balance], [])"
  by code_simp

lemma ex_eligible_balance:
  "eligibleGateways (ex_snapshot [ex_gateway_balance] [ex_provider]) ex_now
     = Some ([ex_gateway_balance], ex_providerMap)"
  by code_simp

lemma ex_balance_facts:
  "to_string (optp ex_gateway_balance ''gatewayId'') = ''gw-001''"
  "''gw-001'' \<notin> set object_prototype_names"
  "shown_balance Map.empty ex_gateway_balance ''currentBalance'' = JNum (Fin 1000)"
  "shown_balance Map.empty ex_gateway_balance ''totalBalance'' = JNum (Fin 5000)"
  by code_simp+

lemma ex_balance_none:
  "the_default Map.empty (balances (ex_snapshot [ex_gateway_balance] [ex_provider])) = Map.empty"
  by (simp add: ex_snapshot_def the_default_def)

text \<open>
  Claim C7, as the code has it. In every result of \<^verbatim>\<open>evaluateFilters\<close>, the
  \<^verbatim>\<open>currentBalance\<close> and the \<^verbatim>\<open>totalBalance\<close> of the record of a gateway are the entry
  of the balances for its \<^verbatim>\<open>gatewayId\<close> when there is one; when there is none, and the
  id is not the name of a member of \<^verbatim>\<open>Object.prototype\<close>, each is the gateway's own
  field of that name if it is present, and 0 only otherwise.
\<close>

theorem balance_fields:
  assumes "evaluateFilters cache batchData now = Some (rs, cache')"
  shows "\<exists>kept providerMap.
           eligibleGateways batchData now = Some (kept, providerMap)
         \<and> list_all2 (\<lambda>r g.
               the_default Map.empty (balances batchData) (to_string (optp g ''gatewayId'')) \<noteq> None
               \<or> to_string (optp g ''gatewayId'') \<notin> set object_prototype_names
               \<longrightarrow>
               optp r ''currentBalance''
                 = shown_balance (the_default Map.empty (balances batchData)) g ''currentBalance''
             \<and> optp r ''totalBalance''
                 = shown_balance (the_default Map.empty (balances batchData)) g ''totalBalance'')
             rs kept"
proof -
  obtain kept pm where elig: "eligibleGateways batchData now = Some (kept, pm)"
    and resp: "list_all2 (\<lambda>r g. \<exists>opt. r = response_record g
                 (the_default Map.empty (balances batchData)) pm opt) rs kept"
    using evaluateFilters_records[OF assms] by blast
  have "list_all2 (\<lambda>r g.
               the_default Map.empty (balances batchData) (to_string (optp g ''gatewayId'')) \<noteq> None
               \<or> to_string (optp g ''gatewayId'') \<notin> set object_prototype_names
               \<longrightarrow>
               optp r ''currentBalance''
                 = shown_balance (the_default Map.empty (balances batchData)) g ''currentBalance''
             \<and> optp r ''totalBalance''
                 = shown_balance (the_default Map.empty (balances batchData)) g ''totalBalance'')
             rs kept"
    using resp by (rule list_all2_mono) (auto simp: response_record_shown_balance)
  then show ?thesis using elig by blast
qed

text \<open>
  At the example, the balances have no entry for the gateway \<^verbatim>\<open>gw-001\<close>, whose own
  fields say 1000 and 5000, and the record shows these.
\<close>

theorem balance_fields_witness:
  "evaluateFilters [] (ex_snapshot [ex_gateway_balance] [ex_provider]) ex_now
     = Some ([ex_response_balance], [])
   \<and> eligibleGateways (ex_snapshot [ex_gateway_balance] [ex_provider]) ex_now
       = Some ([ex_gateway_balance], ex_providerMap)
   \<and> to_string (optp ex_gateway_balance ''gatewayId'') \<notin> set object_prototype_names
   \<and> optp ex_response_balance ''currentBalance'' = JNum (Fin 1000)
   \<and> optp ex_response_balance ''totalBalance'' = JNum (Fin 5000)"
proof -
  obtain kept pm where elig: "eligibleGateways (ex_snapshot [ex_gateway_balance] [ex_provider]) ex_now = Some (kept, pm)"
    and all: "list_all2 (\<lambda>r g.
               the_default Map.empty (balances (ex_snapshot [ex_gateway_balance] [ex_provider]))
                 (to_string (optp g ''gatewayId'')) \<noteq> None
               \<or> to_string (optp g ''gatewayId'') \<notin> set object_prototype_names
               \<longrightarrow>
               optp r ''currentBalance''
                 = shown_balance (the_default Map.empty (balances (ex_snapshot [ex_gateway_balance] [ex_provider]))) g ''currentBalance''
             \<and> optp r ''totalBalance''
                 = shown_balance (the_default Map.empty (balances (ex_snapshot [ex_gateway_balance] [ex_provider]))) g ''totalBalance'')
             [ex_response_balance] kept"
    using balance_fields[OF ex_evaluate_balance] by blast
  have k: "kept = [ex_gateway_balance]"
    using elig ex_eligible_balance by simp
  have "optp ex_response_balance ''currentBalance'' = JNum (Fin 1000)
      \<and> optp ex_response_balance ''totalBalance'' = JNum (Fin 5000)"
    using all unfolding k ex_balance_none by (simp add: ex_balance_facts)
  then show ?thesis
    using ex_evaluate_balance ex_eligible_balance ex_balance_facts(1,2) by simp
qed

text \<open>
  The claim as stated fails where the balances have no entry: the gateway's own
  \<^verbatim>\<open>currentBalance\<close> of 1000 and \<^verbatim>\<open>totalBalance\<close> of 5000 are shown, not 0.
\<close>

theorem balance_default_counterexample:
  "the_default Map.empty (balances (ex_snapshot [ex_gateway_balance] [ex_provider])) ''gw-001'' = None
   \<and> result_fields ''gatewayId'' (evaluateFilters [] (ex_snapshot [ex_gateway_balance] [ex_provider]) ex_now)
       = Some [JStr ''gw-001'']
   \<and> result_fields ''currentBalance'' (evaluateFilters [] (ex_snapshot [ex_gateway_balance] [ex_provider]) ex_now)
       = Some [JNum (Fin 1000)]
   \<and> result_fields ''totalBalance'' (evaluateFilters [] (ex_snapshot [ex_gateway_balance] [ex_provider]) ex_now)
       = Some [JNum (Fin 5000)]"
  by code_simp

text \<open>
  Where the id of a gateway is the name of a member of \<^verbatim>\<open>Object.prototype\<close> and the
  balances have no entry under it, \<^verbatim>\<open>balances[gateway.gatewayId]\<close> is that member, and
  the record shows it as the balance. The statement above leaves this case out.
\<close>

lemma balance_inherited_member:
  "result_fields ''currentBalance''
     (evaluateFilters []
        (ex_snapshot [JObj [(''gatewayId'', JStr ''constructor''), (''provider'', JStr ''provider-a''),
                            (''status'', JBool True)]] [ex_provider]) ex_now)
   = Some [JBuiltin ''constructor'']"
  by code_simp

subsection \<open>The limits\<close>

lemma response_record_spec_limit:
  assumes "direction \<in> set [''deposit'', ''withdraw'']" and "bound \<in> set [''min'', ''max'']"
  shows "opt_chain (response_record g bals pm opt) [''limit'', direction, bound]
           = spec_limit g (map_get pm (optp g ''provider'')) direction bound"
  using assms
  by (auto simp: response_record_limit limit_chain_first_present spec_limit_def)

lemma response_record_min_max:
  "optp (response_record g bals pm opt) ''min''
     = spec_limit g (map_get pm (optp g ''provider'')) ''deposit'' ''min''"
  "optp (response_record g bals pm opt) ''max''
     = spec_limit g (map_get pm (optp g ''provider'')) ''deposit'' ''max''"
  by (simp_all add: response_record_limit limit_chain_first_present spec_limit_def)

lemma ex_evaluate_limit:
  "evaluateFilters [] (ex_snapshot [ex_gateway_limit] [ex_provider_limit]) ex_now
     = Some ([ex_response_limit], [])"
  by code_simp

lemma ex_limit_values:
  "opt_chain ex_response_limit [''limit'', ''deposit'', ''min''] = JNum (Fin 50)"
  "opt_chain ex_response_limit [''limit'', ''deposit'', ''max''] = JNum (Fin 1000000)"
  "opt_chain ex_response_limit [''limit'', ''withdraw'', ''min''] = JNum (Fin 100)"
  "opt_chain ex_response_limit [''limit'', ''withdraw'', ''max''] = JNum (Fin 50000)"
  by code_simp+

text \<open>
  Claim C8. In every result of \<^verbatim>\<open>evaluateFilters\<close>, each of the four limits of the record
  of a gateway (deposit and withdraw, minimum and maximum) is, independently of the three
  others, the first present value of the chain \<^verbatim>\<open>gateway.metaConfig.limit\<close>,
  \<^verbatim>\<open>gateway.limit\<close>, \<^verbatim>\<open>provider.limit\<close>, and else 100 for a minimum and 1000000 for a
  maximum; \<^verbatim>\<open>min\<close> and \<^verbatim>\<open>max\<close> of the record are the deposit limits. The provider is
  the entry of the provider lookup for the gateway's \<^verbatim>\<open>provider\<close>.
\<close>

theorem limit_precedence:
  assumes "evaluateFilters cache batchData now = Some (rs, cache')"
  shows "\<exists>kept providerMap.
           eligibleGateways batchData now = Some (kept, providerMap)
         \<and> list_all2 (\<lambda>r g.
               (\<forall>direction\<in>set [''deposit'', ''withdraw'']. \<forall>bound\<in>set [''min'', ''max''].
                   opt_chain r [''limit'', direction, bound]
                     = spec_limit g (map_get providerMap (optp g ''provider'')) direction bound)
             \<and> optp r ''min'' = spec_limit g (map_get providerMap (optp g ''provider'')) ''deposit'' ''min''
             \<and> optp r ''max'' = spec_limit g (map_get providerMap (optp g ''provider'')) ''deposit'' ''max'')
             rs kept"
proof -
  obtain kept pm where elig: "eligibleGateways batchData now = Some (kept, pm)"
    and resp: "list_all2 (\<lambda>r g. \<exists>opt. r = response_record g
                 (the_default Map.empty (balances batchData)) pm opt) rs kept"
    using evaluateFilters_records[OF assms] by blast
  have "list_all2 (\<lambda>r g.
               (\<forall>direction\<in>set [''deposit'', ''withdraw'']. \<forall>bound\<in>set [''min'', ''max''].
                   opt_chain r [''limit'', direction, bound]
                     = spec_limit g (map_get pm (optp g ''provider'')) direction bound)
             \<and> optp r ''min'' = spec_limit g (map_get pm (optp g ''provider'')) ''deposit'' ''min''
             \<and> optp r ''max'' = spec_limit g (map_get pm (optp g ''provider'')) ''deposit'' ''max'')
             rs kept"
    using resp
  proof (rule list_all2_mono)
    fix r g
    assume "\<exists>opt. r = response_record g (the_default Map.empty (balances batchData)) pm opt"
    then obtain opt where r: "r = response_record g (the_default Map.empty (balances batchData)) pm opt"
      by blast
    show "(\<forall>direction\<in>set [''deposit'', ''withdraw'']. \<forall>bound\<in>set [''min'', ''max''].
                   opt_chain r [''limit'', direction, bound]
                     = spec_limit g (map_get pm (optp g ''provider'')) direction bound)
             \<and> optp r ''min'' = spec_limit g (map_get pm (optp g ''provider'')) ''deposit'' ''min''
             \<and> optp r ''max'' = spec_limit g (map_get pm (optp g ''provider'')) ''deposit'' ''max''"
      unfolding r using response_record_spec_limit response_record_min_max by blast
  qed
  then show ?thesis using elig by blast
qed

text \<open>
  At the example, the deposit minimum 50 is the gateway's own override, the withdraw maximum
  50000 is the provider's default, and the two other bounds are the constants.
\<close>

theorem limit_precedence_witness:
  "evaluateFilters [] (ex_snapshot [ex_gateway_limit] [ex_provider_limit]) ex_now
     = Some ([ex_response_limit], [])
   \<and> (\<exists>kept providerMap.
         eligibleGateways (ex_snapshot [ex_gateway_limit] [ex_provider_limit]) ex_now
           = Some (kept, providerMap)
       \<and> list_all2 (\<lambda>r g.
             (\<forall>direction\<in>set [''deposit'', ''withdraw'']. \<forall>bound\<in>set [''min'', ''max''].
                 opt_chain r [''limit'', direction, bound]
                   = spec_limit g (map_get providerMap (optp g ''provider'')) direction bound)
           \<and> optp r ''min'' = spec_limit g (map_get providerMap (optp g ''provider'')) ''deposit'' ''min''
           \<and> optp r ''max'' = spec_limit g (map_get providerMap (optp g ''provider'')) ''deposit'' ''max'')
           [ex_response_limit] kept)
   \<and> opt_chain ex_response_limit [''limit'', ''deposit'', ''min''] = JNum (Fin 50)
   \<and> opt_chain ex_response_limit [''limit'', ''deposit'', ''max''] = JNum (Fin 1000000)
   \<and> opt_chain ex_response_limit [''limit'', ''withdraw'', ''min''] = JNum (Fin 100)
   \<and> opt_chain ex_response_limit [''limit'', ''withdraw'', ''max''] = JNum (Fin 50000)"
  using limit_precedence[OF ex_evaluate_limit] ex_evaluate_limit ex_limit_values by blast

subsection \<open>The balance entry and the gateway's own balance fields\<close>

lemma ex_evaluate_entry:
  "evaluateFilters [] ex_batch_balance ex_now = Some ([ex_response_entry], [])"
  by code_simp

lemma ex_eligible_entry:
  "eligibleGateways ex_batch_balance ex_now = Some ([ex_gateway_balance], ex_providerMap)"
  by code_simp

lemma ex_entry: "the_default Map.empty (balances ex_batch_balance) (to_string (optp ex_gateway_balance ''gatewayId'')) = Some (Fin 77)"
  by code_simp


text \<open>
  Claim C10. In every result of \<^verbatim>\<open>evaluateFilters\<close>, a record whose gateway id has an
  entry in the balances shows that entry both as \<^verbatim>\<open>currentBalance\<close> and as
  \<^verbatim>\<open>totalBalance\<close>, and the gateway's own two fields have no influence then: with any
  other values in them, the gateway passes the filters as before and is mapped to the same
  response.
\<close>

theorem balance_entry_overrides:
  assumes "evaluateFilters cache batchData now = Some (rs, cache')"
  shows "\<exists>kept providerMap.
           eligibleGateways batchData now = Some (kept, providerMap)
         \<and> list_all2 (\<lambda>r g.
               \<forall>n. the_default Map.empty (balances batchData) (to_string (optp g ''gatewayId'')) = Some n \<longrightarrow>
                 optp r ''currentBalance'' = JNum n \<and> optp r ''totalBalance'' = JNum n
               \<and> (\<forall>x y ci.
                      applyAllFilters (other_balance_fields g x y)
                        (the_default Map.empty (balances batchData))
                        (the_default Map.empty (errors batchData)) providerMap now = Some True
                    \<and> mapToResponse ci (other_balance_fields g x y)
                        (the_default Map.empty (balances batchData)) providerMap
                      = mapToResponse ci g (the_default Map.empty (balances batchData)) providerMap))
             rs kept"
proof -
  let ?bals = "the_default Map.empty (balances batchData)"
  let ?errs = "the_default Map.empty (errors batchData)"
  obtain kept pm where elig: "eligibleGateways batchData now = Some (kept, pm)"
    and resp: "list_all2 (\<lambda>r g. \<exists>opt. r = response_record g ?bals pm opt) rs kept"
    using evaluateFilters_records[OF assms] by blast
  have pass: "\<forall>g\<in>set kept. applyAllFilters g ?bals ?errs pm now = Some True"
    using eligibleGateways_Some(2)[OF elig] by simp
  have both: "list_all2 (\<lambda>r g. (\<exists>opt. r = response_record g ?bals pm opt)
                \<and> applyAllFilters g ?bals ?errs pm now = Some True) rs kept"
    using resp pass by (rule list_all2_and_right)
  have "list_all2 (\<lambda>r g.
               \<forall>n. ?bals (to_string (optp g ''gatewayId'')) = Some n \<longrightarrow>
                 optp r ''currentBalance'' = JNum n \<and> optp r ''totalBalance'' = JNum n
               \<and> (\<forall>x y ci.
                      applyAllFilters (other_balance_fields g x y) ?bals ?errs pm now = Some True
                    \<and> mapToResponse ci (other_balance_fields g x y) ?bals pm
                      = mapToResponse ci g ?bals pm))
             rs kept"
    using both
  proof (rule list_all2_mono)
    fix r g
    assume a: "(\<exists>opt. r = response_record g ?bals pm opt)
                \<and> applyAllFilters g ?bals ?errs pm now = Some True"
    then obtain opt where r: "r = response_record g ?bals pm opt" by blast
    show "\<forall>n. ?bals (to_string (optp g ''gatewayId'')) = Some n \<longrightarrow>
                 optp r ''currentBalance'' = JNum n \<and> optp r ''totalBalance'' = JNum n
               \<and> (\<forall>x y ci.
                      applyAllFilters (other_balance_fields g x y) ?bals ?errs pm now = Some True
                    \<and> mapToResponse ci (other_balance_fields g x y) ?bals pm
                      = mapToResponse ci g ?bals pm)"
    proof (intro allI impI)
      fix n
      assume n: "?bals (to_string (optp g ''gatewayId'')) = Some n"
      have cur: "optp r ''currentBalance'' = JNum n" and tot: "optp r ''totalBalance'' = JNum n"
        unfolding r using n
        by (simp_all add: response_record_balance record_get_def nullish_coalesce_def)
      have flt: "\<And>x y. applyAllFilters (other_balance_fields g x y) ?bals ?errs pm now = Some True"
        using a by (simp add: other_balance_fields_def applyAllFilters_with_field_gen filter_fields_def)
      have mp: "\<And>x y ci. mapToResponse ci (other_balance_fields g x y) ?bals pm = mapToResponse ci g ?bals pm"
        unfolding other_balance_fields_def
        using mapToResponse_balance_fields[of ?bals g n] n by simp
      show "optp r ''currentBalance'' = JNum n \<and> optp r ''totalBalance'' = JNum n
               \<and> (\<forall>x y ci.
                      applyAllFilters (other_balance_fields g x y) ?bals ?errs pm now = Some True
                    \<and> mapToResponse ci (other_balance_fields g x y) ?bals pm
                      = mapToResponse ci g ?bals pm)"
        using cur tot flt mp by blast
    qed
  qed
  then show ?thesis using elig by blast
qed

text \<open>
  At the example, the balances hold 77 for the gateway, whose own fields say 1000 and 5000.
\<close>

theorem balance_entry_overrides_witness:
  "evaluateFilters [] ex_batch_balance ex_now = Some ([ex_response_entry], [])
   \<and> the_default Map.empty (balances ex_batch_balance) (to_string (optp ex_gateway_balance ''gatewayId''))
       = Some (Fin 77)
   \<and> optp ex_gateway_balance ''currentBalance'' = JNum (Fin 1000)
   \<and> optp ex_response_entry ''currentBalance'' = JNum (Fin 77)
   \<and> optp ex_response_entry ''totalBalance'' = JNum (Fin 77)
   \<and> mapToResponse [] (other_balance_fields ex_gateway_balance (JNum (Fin 1)) JNull)
        (the_default Map.empty (balances ex_batch_balance)) ex_providerMap
      = mapToResponse [] ex_gateway_balance (the_default Map.empty (balances ex_batch_balance)) ex_providerMap"
proof -
  obtain kept pm where elig: "eligibleGateways ex_batch_balance ex_now = Some (kept, pm)"
    and all: "list_all2 (\<lambda>r g.
               \<forall>n. the_default Map.empty (balances ex_batch_balance) (to_string (optp g ''gatewayId'')) = Some n \<longrightarrow>
                 optp r ''currentBalance'' = JNum n \<and> optp r ''totalBalance'' = JNum n
               \<and> (\<forall>x y ci.
                      applyAllFilters (other_balance_fields g x y)
                        (the_default Map.empty (balances ex_batch_balance))
                        (the_default Map.empty (errors ex_batch_balance)) pm ex_now = Some True
                    \<and> mapToResponse ci (other_balance_fields g x y)
                        (the_default Map.empty (balances ex_batch_balance)) pm
                      = mapToResponse ci g (the_default Map.empty (balances ex_batch_balance)) pm))
             [ex_response_entry] kept"
    using balance_entry_overrides[OF ex_evaluate_entry] by blast
  have k: "kept = [ex_gateway_balance]" and p: "pm = ex_providerMap"
    using elig ex_eligible_entry by simp_all
  have own: "optp ex_gateway_balance ''currentBalance'' = JNum (Fin 1000)" by code_simp
  show ?thesis
    using all ex_entry ex_evaluate_entry own unfolding k p by simp
qed

end
